theory Spec2Isabelle
  imports Main "HOL-Library.Word" "HOL-Library.AList"
begin

unbundle bit_operations_syntax

section \<open>Values shared by the whole client\<close>

type_synonym byte = "8 word"
type_synonym bytes = "byte list"
type_synonym uint32 = "32 word"

text \<open>
  Go's \<open>error\<close> values, as far as this package builds or inspects them. \<open>Wrap\<close> is
  \<open>errors.Wrap\<close>/\<open>Wrapf\<close> of github.com/pkg/errors, \<open>Errorf\<close> is
  \<open>fmt.Errorf("...: %w", err)\<close> and \<open>ErrorfCode\<close> is \<open>fmt.Errorf("%w: %d", err, n)\<close>.
  \<open>StatusError\<close> is what \<open>(*status.Status).Err\<close> returns for a code other than OK.
  \<open>Foreign\<close> stands for an error of a library the package only passes on (the codec, the
  HTTP client, the socket); \<open>ErrMalformedFrame\<close> and \<open>ErrTruncated\<close> are the spec's
  names for the failures of the frame parser. The text of a status message is a string;
  where the code takes it from \<open>err.Error()\<close> the rendering is kept symbolic as
  \<open>ErrorText err\<close>.
\<close>

datatype num_err = ErrSyntax | ErrRange

datatype error =
    EOF
  | ErrUnexpectedEOF
  | ErrInvalidResponseCode
  | ErrInsecureWithTLS
  | ErrNotAStreamingRequest
  | ErrCloseSent
  | New string
  | Wrap error string
  | Errorf string error
  | ErrorfCode error int
  | StatusError uint32 msgtext
  | NumError string string num_err
  | CloseError int
  | NetOpError bool
  | ErrMalformedFrame
  | ErrTruncated
  | Foreign string
and msgtext = Str string | ErrorText error

text \<open>A Go call that may panic instead of returning.\<close>

datatype 'a result = Ret 'a | Panic string

text \<open>\<open>errors.Is\<close>: the error or anything it wraps is the target.\<close>

fun errors_Is :: "error \<Rightarrow> error \<Rightarrow> bool" where
  "errors_Is (Wrap e m) t = (Wrap e m = t \<or> errors_Is e t)"
| "errors_Is (Errorf m e) t = (Errorf m e = t \<or> errors_Is e t)"
| "errors_Is (ErrorfCode e n) t = (ErrorfCode e n = t \<or> errors_Is e t)"
| "errors_Is e t = (e = t)"

text \<open>\<open>errors.Cause\<close> of pkg/errors: only its own wrappers are looked through.\<close>

fun errors_Cause :: "error \<Rightarrow> error" where
  "errors_Cause (Wrap e m) = errors_Cause e"
| "errors_Cause e = e"

subsection \<open>gRPC status\<close>

definition codes_OK :: uint32 where "codes_OK = 0"
definition codes_Unknown :: uint32 where "codes_Unknown = 2"

record Status =
  Code :: uint32
  Message :: msgtext

definition status_New :: "uint32 \<Rightarrow> msgtext \<Rightarrow> Status" where
  "status_New c m = \<lparr>Code = c, Message = m\<rparr>"

text \<open>\<open>(*Status).Err\<close>: nil for OK, a status-bearing error otherwise.\<close>

definition Status_Err :: "Status \<Rightarrow> error option" where
  "Status_Err s = (if Code s = codes_OK then None else Some (StatusError (Code s) (Message s)))"

subsection \<open>strconv\<close>

definition is_digit :: "char \<Rightarrow> bool" where
  "is_digit c = (48 \<le> (of_char c :: nat) \<and> (of_char c :: nat) \<le> 57)"

definition digit_val :: "char \<Rightarrow> nat" where
  "digit_val c = (of_char c :: nat) - 48"

text \<open>
  The digit loop of \<open>strconv.ParseUint\<close> in base 10: a byte that is no digit is a syntax
  error, a value above \<open>maxVal\<close> a range error, whichever comes first in the string.
\<close>

fun parse_digits :: "nat \<Rightarrow> nat \<Rightarrow> string \<Rightarrow> num_err + nat" where
  "parse_digits maxVal n [] = Inr n"
| "parse_digits maxVal n (c # cs) =
     (if \<not> is_digit c then Inl ErrSyntax
      else if n * 10 + digit_val c > maxVal then Inl ErrRange
      else parse_digits maxVal (n * 10 + digit_val c) cs)"

definition ParseUint :: "string \<Rightarrow> nat \<Rightarrow> error + nat" where
  "ParseUint s bitSize =
     (if s = [] then Inl (NumError ''ParseUint'' s ErrSyntax)
      else case parse_digits (2 ^ bitSize - 1) 0 s of
             Inl k \<Rightarrow> Inl (NumError ''ParseUint'' s k)
           | Inr n \<Rightarrow> Inr n)"

text \<open>\<open>strconv.Atoi\<close> on a 64-bit platform: an optional sign, then decimal digits.\<close>

definition Atoi :: "string \<Rightarrow> error + int" where
  "Atoi s =
     (case s of
        [] \<Rightarrow> Inl (NumError ''Atoi'' s ErrSyntax)
      | c # r \<Rightarrow>
          (let neg = (c = CHR ''-'');
               ds = (if c = CHR ''-'' \<or> c = CHR ''+'' then r else s)
           in if ds = [] then Inl (NumError ''Atoi'' s ErrSyntax)
              else case parse_digits (2 ^ 64 - 1) 0 ds of
                     Inl k \<Rightarrow> Inl (NumError ''Atoi'' s k)
                   | Inr n \<Rightarrow>
                       if \<not> neg \<and> n \<ge> 2 ^ 63 then Inl (NumError ''Atoi'' s ErrRange)
                       else if neg \<and> n > 2 ^ 63 then Inl (NumError ''Atoi'' s ErrRange)
                       else Inr (if neg then - int n else int n)))"

subsection \<open>Metadata and HTTP headers\<close>

text \<open>
  \<open>metadata.MD\<close> and \<open>http.Header\<close> are Go maps from a key to a list of values: here
  association lists with one entry per key. A nil \<open>metadata.MD\<close> is \<open>None\<close>; reading a
  nil map gives no values.
\<close>

type_synonym MD = "(string \<times> string list) list"
type_synonym http_Header = "(string \<times> string list) list"

text \<open>\<open>strings.ToLower\<close> on ASCII keys (bytes outside A-Z stay as they are).\<close>

definition lower_char :: "char \<Rightarrow> char" where
  "lower_char c =
     (if 65 \<le> (of_char c :: nat) \<and> (of_char c :: nat) \<le> 90
      then char_of ((of_char c :: nat) + 32) else c)"

definition ToLower :: "string \<Rightarrow> string" where
  "ToLower s = map lower_char s"

definition md_lookup :: "MD \<Rightarrow> string \<Rightarrow> string list" where
  "md_lookup md k = (case map_of md k of None \<Rightarrow> [] | Some v \<Rightarrow> v)"

text \<open>\<open>MD.Get\<close>, \<open>MD.Len\<close> and \<open>MD.Append\<close>.\<close>

definition MD_Get :: "MD option \<Rightarrow> string \<Rightarrow> string list" where
  "MD_Get h k = (case h of None \<Rightarrow> [] | Some md \<Rightarrow> md_lookup md (ToLower k))"

definition MD_Len :: "MD option \<Rightarrow> nat" where
  "MD_Len h = (case h of None \<Rightarrow> 0 | Some md \<Rightarrow> length md)"

definition MD_Append :: "MD \<Rightarrow> string \<Rightarrow> string list \<Rightarrow> MD" where
  "MD_Append md k vals =
     (if vals = [] then md
      else AList.update (ToLower k) (md_lookup md (ToLower k) @ vals) md)"

text \<open>The loop \<open>for k, v := range h { md.Append(k, v...) }\<close>, in the order of the list.\<close>

definition append_all :: "http_Header \<Rightarrow> MD" where
  "append_all h = foldl (\<lambda>md (k, v). MD_Append md k v) [] h"

definition toMetadata :: "http_Header \<Rightarrow> MD option" where
  "toMetadata h = (if length h = 0 then None else Some (append_all h))"

subsection \<open>Deriving a status from metadata\<close>

text \<open>\<open>checkStatus\<close> (grpcweb.go): the status the response headers of a unary call carry.\<close>

definition checkStatus :: "MD option \<Rightarrow> Status" where
  "checkStatus md =
     (let gs = MD_Get md ''grpc-status'';
          gm = MD_Get md ''grpc-message''
      in case (if length gs > 0
               then (case ParseUint (hd gs) 32 of
                       Inl err \<Rightarrow> Inl (status_New codes_Unknown (Str (''unknown status code '' @ hd gs)))
                     | Inr c \<Rightarrow> Inr (word_of_nat c))
               else Inr codes_OK) of
           Inl st \<Rightarrow> st
         | Inr code \<Rightarrow> status_New code (Str (if length gm > 0 then hd gm else [])))"

text \<open>
  \<open>statusFromHeader\<close> (stream code): the status of a trailers-only response. \<open>msgs[0]\<close>
  is an index into a possibly empty slice; Go panics there.
\<close>

definition statusFromHeader :: "MD option \<Rightarrow> Status result" where
  "statusFromHeader h =
     (let msgs = MD_Get h ''grpc-message'';
          codeStr = MD_Get h ''grpc-status''
      in if length codeStr = 0
         then Ret (status_New codes_Unknown (Str ''response closed without grpc-status (headers only)''))
         else case Atoi (hd codeStr) of
                Inl err \<Rightarrow> Ret (status_New codes_Unknown (ErrorText err))
              | Inr i \<Rightarrow>
                  (case msgs of
                     [] \<Rightarrow> Panic ''index out of range [0] with length 0''
                   | m # _ \<Rightarrow> Ret (status_New (word_of_int i) (Str m))))"

section \<open>Request framing\<close>

definition PutUint32 :: "uint32 \<Rightarrow> bytes" where
  "PutUint32 v = [ucast (drop_bit 24 v), ucast (drop_bit 16 v), ucast (drop_bit 8 v), ucast v]"

text \<open>\<open>binary.BigEndian.Uint32\<close> of a four-byte slice (the callers pass exactly four).\<close>

definition Uint32 :: "bytes \<Rightarrow> uint32" where
  "Uint32 b =
     (ucast (b ! 3) OR push_bit 8 (ucast (b ! 2)) OR push_bit 16 (ucast (b ! 1))
        OR push_bit 24 (ucast (b ! 0)))"

definition headerLen :: nat where "headerLen = 5"

text \<open>\<open>header(bodyLen int)\<close>: the flag byte 0 and \<open>uint32(bodyLen)\<close>, which truncates.\<close>

definition header :: "int \<Rightarrow> bytes" where
  "header bodyLen = 0 # PutUint32 (word_of_int bodyLen)"

text \<open>
  The codec is a capability of the caller: \<open>Marshal\<close> and \<open>Unmarshal\<close> are its
  functions, \<open>Unmarshal\<close> giving the message it stores into the caller's object.
\<close>

record 'm codec =
  Name :: string
  Marshal :: "'m \<Rightarrow> error + bytes"
  Unmarshal :: "bytes \<Rightarrow> error + 'm"

definition encodeRequestBody :: "'m codec \<Rightarrow> 'm \<Rightarrow> error + bytes" where
  "encodeRequestBody cdc inp =
     (case Marshal cdc inp of
        Inl err \<Rightarrow> Inl (Wrap err ''failed to marshal the request body'')
      | Inr body \<Rightarrow> Inr (header (int (length body)) @ body))"

section \<open>Options and the client connection\<close>

text \<open>A \<open>*tls.Config\<close> is known here by its identity only; nil is \<open>None\<close>.\<close>

datatype tls_Config = TLSConfig nat

text \<open>
  The option constructors of option.go. \<open>Header\<close> and \<open>Trailer\<close> carry the address of
  the caller's \<open>metadata.MD\<close> variable.
\<close>

datatype CallOption = CallContentSubtype string | Header nat | Trailer nat

datatype DialOption =
    WithDefaultCallOptions "CallOption list"
  | WithInsecure
  | WithTLSConfig "tls_Config option"

record dialOptions =
  defaultCallOptions :: "CallOption list"
  insecure :: bool
  tlsConf :: "tls_Config option"

definition defaultDialOptions :: dialOptions where
  "defaultDialOptions = \<lparr>defaultCallOptions = [], insecure = False, tlsConf = None\<rparr>"

fun apply_DialOption :: "dialOptions \<Rightarrow> DialOption \<Rightarrow> dialOptions" where
  "apply_DialOption opt (WithDefaultCallOptions opts) = opt\<lparr>defaultCallOptions := opts\<rparr>"
| "apply_DialOption opt WithInsecure = opt\<lparr>insecure := True\<rparr>"
| "apply_DialOption opt (WithTLSConfig conf) = opt\<lparr>tlsConf := conf\<rparr>"

record ClientConn =
  host :: string
  conn_dialOptions :: dialOptions

text \<open>\<open>DialContext\<close> (grpcweb.go) and its later name \<open>NewClient\<close>: the same body.\<close>

definition DialContext :: "string \<Rightarrow> DialOption list \<Rightarrow> ClientConn option \<times> error option" where
  "DialContext h opts =
     (let opt = foldl apply_DialOption defaultDialOptions opts
      in if insecure opt \<and> tlsConf opt \<noteq> None then (None, Some ErrInsecureWithTLS)
         else (Some \<lparr>host = h, conn_dialOptions = opt\<rparr>, None))"

definition NewClient :: "string \<Rightarrow> DialOption list \<Rightarrow> ClientConn option \<times> error option" where
  "NewClient h opts =
     (let opt = foldl apply_DialOption defaultDialOptions opts
      in if insecure opt \<and> tlsConf opt \<noteq> None then (None, Some ErrInsecureWithTLS)
         else (Some \<lparr>host = h, conn_dialOptions = opt\<rparr>, None))"

section \<open>The frame parser\<close>

text \<open>
  The package \<open>grpcweb/parser\<close> is called by the client but is not among the sources.
  Every operation below takes the parser as a parameter \<open>P\<close>: its five functions, each
  reading from the unread bytes of a body and giving back what is left of it. Of a parsed
  frame header the client reads the field \<open>ContentLength\<close> and asks the two questions
  \<open>IsMessageHeader\<close> and \<open>IsTrailerHeader\<close>; the flag byte is the field the spec names.
\<close>

record parser_Header =
  flag :: byte
  ContentLength :: uint32

record parser =
  ParseResponseHeader :: "bytes \<Rightarrow> (error + parser_Header) \<times> bytes"
  IsMessageHeader :: "parser_Header \<Rightarrow> bool"
  IsTrailerHeader :: "parser_Header \<Rightarrow> bool"
  ParseLengthPrefixedMessage :: "bytes \<Rightarrow> uint32 \<Rightarrow> (error + bytes) \<times> bytes"
  ParseStatusAndTrailer :: "bytes \<Rightarrow> uint32 \<Rightarrow> (error + Status \<times> MD option) \<times> bytes"

definition string_of_bytes :: "bytes \<Rightarrow> string" where
  "string_of_bytes b = map (\<lambda>x. char_of (unat x)) b"

definition bytes_of_string :: "string \<Rightarrow> bytes" where
  "bytes_of_string s = map (\<lambda>c. of_nat (of_char c :: nat)) s"

text \<open>
  Modelled from the spec: \<open>DecodeFrameHeader\<close> (the absent \<open>parser.ParseResponseHeader\<close>)
  reads exactly 5 bytes and fails with MalformedFrame if fewer are available; bit 0x80 of
  the flag byte says trailer frame, a clear bit 0x80 says data frame.
\<close>

definition spec_ParseResponseHeader :: "bytes \<Rightarrow> (error + parser_Header) \<times> bytes" where
  "spec_ParseResponseHeader r =
     (if length r < 5 then (Inl ErrMalformedFrame, [])
      else (Inr \<lparr>flag = r ! 0, ContentLength = Uint32 (take 4 (drop 1 r))\<rparr>, drop 5 r))"

definition spec_IsTrailerHeader :: "parser_Header \<Rightarrow> bool" where
  "spec_IsTrailerHeader h = (flag h AND 0x80 \<noteq> 0)"

definition spec_IsMessageHeader :: "parser_Header \<Rightarrow> bool" where
  "spec_IsMessageHeader h = (flag h AND 0x80 = 0)"

text \<open>
  Modelled from the spec: \<open>DecodeMessage\<close> (the absent \<open>parser.ParseLengthPrefixedMessage\<close>)
  reads exactly \<open>length\<close> bytes and fails with Truncated if the stream ends early.
\<close>

definition spec_ParseLengthPrefixedMessage :: "bytes \<Rightarrow> uint32 \<Rightarrow> (error + bytes) \<times> bytes" where
  "spec_ParseLengthPrefixedMessage r n =
     (if length r < unat n then (Inl ErrTruncated, [])
      else (Inr (take (unat n) r), drop (unat n) r))"

text \<open>
  Modelled from the spec: the body of a trailer frame is \<open>key: value\<close> lines, each
  ended by CR LF; a line is split at its first \<open>": "\<close>, and the key is lower-cased
  when it is stored.
\<close>

fun crlf_lines :: "string \<Rightarrow> string \<Rightarrow> string list" where
  "crlf_lines cur (a # b # cs) =
     (if a = CHR 0x0D \<and> b = CHR 0x0A then rev cur # crlf_lines [] cs
      else crlf_lines (a # cur) (b # cs))"
| "crlf_lines cur [a] = [rev (a # cur)]"
| "crlf_lines cur [] = (if cur = [] then [] else [rev cur])"

fun split_kv :: "string \<Rightarrow> string \<Rightarrow> (string \<times> string) option" where
  "split_kv k (a # b # r) =
     (if a = CHR '':'' \<and> b = CHR '' '' then Some (rev k, r)
      else split_kv (a # k) (b # r))"
| "split_kv k r = None"

definition add_line :: "MD \<Rightarrow> string \<Rightarrow> MD" where
  "add_line md l =
     (case split_kv [] l of None \<Rightarrow> md | Some (k, v) \<Rightarrow> MD_Append md k [v])"

text \<open>
  Modelled from the spec: \<open>DecodeTrailer\<close> (the absent \<open>parser.ParseStatusAndTrailer\<close>)
  reads \<open>length\<close> bytes of \<open>key: value\<close> lines into Metadata, skipping lines without the
  separator; the Status is derived from that Metadata by the keys grpc-status (its absence
  is Unknown) and grpc-message (optional).
\<close>

definition spec_status :: "MD \<Rightarrow> Status" where
  "spec_status md =
     (let gs = md_lookup md ''grpc-status''; gm = md_lookup md ''grpc-message''
      in case gs of
           [] \<Rightarrow> status_New codes_Unknown (Str [])
         | c # _ \<Rightarrow>
             (case ParseUint c 32 of
                Inl err \<Rightarrow> status_New codes_Unknown (Str [])
              | Inr n \<Rightarrow> status_New (word_of_nat n) (Str (case gm of [] \<Rightarrow> [] | m # _ \<Rightarrow> m))))"

definition spec_ParseStatusAndTrailer ::
  "bytes \<Rightarrow> uint32 \<Rightarrow> (error + Status \<times> MD option) \<times> bytes" where
  "spec_ParseStatusAndTrailer r n =
     (if length r < unat n then (Inl ErrTruncated, [])
      else (let md = foldl add_line [] (crlf_lines [] (string_of_bytes (take (unat n) r)))
            in (Inr (spec_status md, Some md), drop (unat n) r)))"

definition spec_parser :: parser where
  "spec_parser =
     \<lparr>ParseResponseHeader = spec_ParseResponseHeader,
      IsMessageHeader = spec_IsMessageHeader,
      IsTrailerHeader = spec_IsTrailerHeader,
      ParseLengthPrefixedMessage = spec_ParseLengthPrefixedMessage,
      ParseStatusAndTrailer = spec_ParseStatusAndTrailer\<rparr>"

section \<open>The unary transport\<close>

text \<open>
  \<open>http.Header.Add\<close> and \<open>Set\<close> store under the canonical form of the key
  (\<open>textproto.CanonicalMIMEHeaderKey\<close>): a key with a byte that is no token byte is left
  alone, otherwise the first letter and each letter after a hyphen is upper case and the
  rest lower case.
\<close>

definition upper_char :: "char \<Rightarrow> char" where
  "upper_char c =
     (if 97 \<le> (of_char c :: nat) \<and> (of_char c :: nat) \<le> 122
      then char_of ((of_char c :: nat) - 32) else c)"

definition is_token_char :: "char \<Rightarrow> bool" where
  "is_token_char c =
     (let n = (of_char c :: nat)
      in (48 \<le> n \<and> n \<le> 57) \<or> (65 \<le> n \<and> n \<le> 90) \<or> (97 \<le> n \<and> n \<le> 122)
         \<or> n \<in> {33, 35, 36, 37, 38, 39, 42, 43, 45, 46, 94, 95, 96, 124, 126})"

fun canon_from :: "bool \<Rightarrow> string \<Rightarrow> string" where
  "canon_from up [] = []"
| "canon_from up (c # cs) =
     (if up then upper_char c else lower_char c) # canon_from (c = CHR ''-'') cs"

definition CanonicalMIMEHeaderKey :: "string \<Rightarrow> string" where
  "CanonicalMIMEHeaderKey k = (if list_all is_token_char k then canon_from True k else k)"

definition Header_Add :: "http_Header \<Rightarrow> string \<Rightarrow> string \<Rightarrow> http_Header" where
  "Header_Add h k v =
     AList.update (CanonicalMIMEHeaderKey k) (md_lookup h (CanonicalMIMEHeaderKey k) @ [v]) h"

definition Header_Set :: "http_Header \<Rightarrow> string \<Rightarrow> string \<Rightarrow> http_Header" where
  "Header_Set h k v = AList.update (CanonicalMIMEHeaderKey k) [v] h"

text \<open>
  The loop that copies the outgoing metadata of the context into a header:
  \<open>for k, v := range md { for _, vv := range v { h.Add(k, vv) } }\<close>.
\<close>

definition add_outgoing :: "http_Header \<Rightarrow> MD option \<Rightarrow> http_Header" where
  "add_outgoing h md =
     (case md of
        None \<Rightarrow> h
      | Some m \<Rightarrow> foldl (\<lambda>h' (k, v). foldl (\<lambda>h'' vv. Header_Add h'' k vv) h' v) h m)"

text \<open>
  What lies outside the program: whether a URL parses, whether \<open>http.NewRequest\<close> accepts
  it, and what the HTTP client answers to a request. A URL is kept as the text
  \<open>scheme://host\<close> followed by the endpoint.
\<close>

record http_Request =
  req_url :: string
  req_header :: http_Header
  req_body :: bytes

record http_Response =
  StatusCode :: int
  resp_Header :: http_Header
  resp_Body :: bytes

record world =
  url_Parse :: "string \<Rightarrow> error option"
  NewRequest :: "string \<Rightarrow> error option"
  client_Do :: "http_Request \<Rightarrow> error + http_Response"

record httpTransport =
  ht_url :: string
  ht_header :: http_Header
  ht_sent :: bool

definition http_StatusOK :: int where "http_StatusOK = 200"

text \<open>\<open>httpTransport.Send\<close>; the deferred \<open>t.sent = true\<close> runs on every path past the guard.\<close>

definition httpTransport_Send ::
  "world \<Rightarrow> httpTransport \<Rightarrow> string \<Rightarrow> string \<Rightarrow> bytes
     \<Rightarrow> (error + http_Header \<times> bytes) \<times> httpTransport" where
  "httpTransport_Send w t endpoint contentType body =
     (if ht_sent t
      then (Inl (New ''Send must be called only one time per one Request''), t)
      else (let url = ht_url t @ endpoint
            in case NewRequest w url of
                 Some err \<Rightarrow> (Inl (Wrap err ''failed to build the API request''), t\<lparr>ht_sent := True\<rparr>)
               | None \<Rightarrow>
                   (let h = Header_Add (Header_Add (ht_header t) ''content-type'' contentType)
                              ''x-grpc-web'' ''1'';
                        t' = t\<lparr>ht_header := h, ht_sent := True\<rparr>
                    in case client_Do w \<lparr>req_url = url, req_header = h, req_body = body\<rparr> of
                         Inl err \<Rightarrow> (Inl (Wrap err ''failed to send the API''), t')
                       | Inr res \<Rightarrow>
                           if StatusCode res \<noteq> http_StatusOK
                           then (Inl (ErrorfCode ErrInvalidResponseCode (StatusCode res)), t')
                           else (Inr (resp_Header res, resp_Body res), t'))))"


section \<open>Call options\<close>

text \<open>
  \<open>callOptions\<close>: the codec (nil when the registry has none under the name) and the
  addresses of the caller's header and trailer variables. The caller's variables live
  in a store from addresses to \<open>metadata.MD\<close> values.
\<close>

record 'm callOptions =
  co_codec :: "'m codec option"
  co_header :: "nat option"
  co_trailer :: "nat option"




section \<open>The unary call\<close>





section \<open>The server-streaming call\<close>

text \<open>
  The response body of the HTTP transport: the bytes not yet read and whether it has
  been closed. \<open>Read\<close> into a 5-byte array gives what is there, up to 5 bytes, or EOF
  when nothing is left.
\<close>

record body =
  unread :: bytes
  body_closed :: bool

record 'm serverStream =
  ss_ctx :: "MD option"
  ss_endpoint :: string
  ss_transport :: httpTransport
  ss_resStream :: "body option"
  ss_callOptions :: "'m callOptions"
  ss_closed :: bool
  ss_header :: "MD option"
  ss_trailer :: "MD option"

definition serverStream_Header :: "'m serverStream \<Rightarrow> MD option \<times> error option" where
  "serverStream_Header s = (ss_header s, None)"

definition serverStream_Trailer :: "'m serverStream \<Rightarrow> (MD option) result" where
  "serverStream_Trailer s =
     (if \<not> ss_closed s
      then Panic ''Trailer must be called after stream.CloseAndReceive has been called''
      else Ret (ss_trailer s))"

definition serverStream_CloseSend :: "'m serverStream \<Rightarrow> error option" where
  "serverStream_CloseSend s = None"

definition serverStream_SendMsg ::
  "world \<Rightarrow> 'm serverStream \<Rightarrow> 'm \<Rightarrow> (error option) result \<times> 'm serverStream" where
  "serverStream_SendMsg w s req =
     (case co_codec (ss_callOptions s) of
        None \<Rightarrow> (Panic ''invalid memory address or nil pointer dereference'', s)
      | Some cdc \<Rightarrow>
          (case encodeRequestBody cdc req of
             Inl err \<Rightarrow> (Ret (Some (Wrap err ''failed to build the request body'')), s)
           | Inr r \<Rightarrow>
               (let tr = ss_transport s;
                    tr1 = tr\<lparr>ht_header := add_outgoing (ht_header tr) (ss_ctx s)\<rparr>;
                    contentType = ''application/grpc-web+'' @ Name cdc
                in case httpTransport_Send w tr1 (ss_endpoint s) contentType r of
                     (Inl err, tr2) \<Rightarrow>
                       (Ret (Some (Wrap err ''failed to send the request'')), s\<lparr>ss_transport := tr2\<rparr>)
                   | (Inr (hdr, rawBody), tr2) \<Rightarrow>
                       (Ret None,
                        s\<lparr>ss_transport := tr2, ss_header := toMetadata hdr,
                          ss_resStream := Some \<lparr>unread = rawBody, body_closed = False\<rparr>\<rparr>))))"

text \<open>
  The deferred function of \<open>serverStream.RecvMsg\<close>: when the error returned is exactly
  \<open>io.EOF\<close> the transport is closed (which never fails for the HTTP transport) and the
  body is closed.
\<close>

definition recv_deferred :: "body \<Rightarrow> error option \<Rightarrow> body" where
  "recv_deferred b err = (if err = Some EOF then b\<lparr>body_closed := True\<rparr> else b)"

definition recv_return ::
  "'m serverStream \<Rightarrow> body \<Rightarrow> error option \<Rightarrow> 'm option
     \<Rightarrow> (error option \<times> 'm option) result \<times> 'm serverStream" where
  "recv_return s b err res = (Ret (err, res), s\<lparr>ss_resStream := Some (recv_deferred b err)\<rparr>)"

text \<open>The data branch of \<open>serverStream.RecvMsg\<close> (flag 0 or 1): one message for the codec.\<close>

definition server_recv_message ::
  "parser \<Rightarrow> 'm serverStream \<Rightarrow> body \<Rightarrow> uint32
     \<Rightarrow> (error option \<times> 'm option) result \<times> 'm serverStream" where
  "server_recv_message P s b len =
     (case ParseLengthPrefixedMessage P (unread b) len of
        (Inl err, rest) \<Rightarrow> recv_return s (b\<lparr>unread := rest\<rparr>) (Some err) None
      | (Inr msg, rest) \<Rightarrow>
          (case co_codec (ss_callOptions s) of
             None \<Rightarrow>
               (Panic ''invalid memory address or nil pointer dereference'',
                s\<lparr>ss_resStream := Some (b\<lparr>unread := rest\<rparr>)\<rparr>)
           | Some cdc \<Rightarrow>
               (case Unmarshal cdc msg of
                  Inl err \<Rightarrow>
                    recv_return s (b\<lparr>unread := rest\<rparr>)
                      (Some (Wrap err ''failed to unmarshal response body'')) None
                | Inr m \<Rightarrow> recv_return s (b\<lparr>unread := rest\<rparr>) None (Some m))))"

text \<open>The trailer branch (any other flag): status and trailer, and the stream is closed.\<close>

definition server_recv_trailer ::
  "parser \<Rightarrow> 'm serverStream \<Rightarrow> body \<Rightarrow> uint32
     \<Rightarrow> (error option \<times> 'm option) result \<times> 'm serverStream" where
  "server_recv_trailer P s b len =
     (case ParseStatusAndTrailer P (unread b) len of
        (Inl err, rest) \<Rightarrow>
          recv_return s (b\<lparr>unread := rest\<rparr>) (Some (Wrap err ''failed to parse trailer'')) None
      | (Inr (status, trailer), rest) \<Rightarrow>
          (let s' = s\<lparr>ss_closed := True, ss_trailer := trailer\<rparr>
           in if Code status \<noteq> codes_OK
              then recv_return s' (b\<lparr>unread := rest\<rparr>) (Status_Err status) None
              else recv_return s' (b\<lparr>unread := rest\<rparr>) (Some EOF) None))"

text \<open>\<open>serverStream.RecvMsg\<close>: the result is the error and the message stored in \<open>res\<close>.\<close>

definition serverStream_RecvMsg ::
  "parser \<Rightarrow> 'm serverStream \<Rightarrow> (error option \<times> 'm option) result \<times> 'm serverStream" where
  "serverStream_RecvMsg P s =
     (case ss_resStream s of
        None \<Rightarrow> (Ret (Some (New ''Receive must be call after calling Send''), None), s)
      | Some b \<Rightarrow>
          if body_closed b
          then recv_return s b (Some (Foreign ''http: read on closed response body'')) None
          else if unread b = [] then recv_return s b (Some EOF) None
          else
            (let h = take 5 (unread b);
                 b1 = b\<lparr>unread := drop 5 (unread b)\<rparr>
             in if length h \<noteq> 5 then recv_return s b1 (Some ErrUnexpectedEOF) None
                else
                  (let flg = h ! 0;
                       len = Uint32 (drop 1 h)
                   in if len = 0 then recv_return s b1 (Some EOF) None
                      else if flg = 0 \<or> flg = 1 then server_recv_message P s b1 len
                      else server_recv_trailer P s b1 len)))"

section \<open>The WebSocket transport\<close>

text \<open>
  The socket (github.com/gorilla/websocket) as the transport sees it. Reading: the
  messages that will arrive, in order, and the error every read returns once they are
  used up; a \<open>Torn\<close> message is one whose reader fails before its end, after which the
  connection delivers nothing more. Writing: the messages written so far, the error
  every write fails with (if the connection cannot be written to), and whether a close
  message has been written, after which writes fail with \<open>ErrCloseSent\<close>.
  A written message is raw bytes or the wire text of a header block
  (\<open>http.Header.Write\<close>), kept symbolic.
\<close>

datatype ws_msg = Complete bytes | Torn bytes

datatype ws_payload = Raw bytes | HeaderText http_Header

record ws_conn =
  incoming :: "ws_msg list"
  read_err :: error
  outgoing :: "(nat \<times> ws_payload) list"
  write_err :: "error option"
  close_sent :: bool
  conn_closed :: bool

definition BinaryMessage :: nat where "BinaryMessage = 2"
definition CloseMessage :: nat where "CloseMessage = 8"
definition CloseNormalClosure :: int where "CloseNormalClosure = 1000"
definition CloseAbnormalClosure :: int where "CloseAbnormalClosure = 1006"

definition msg_bytes :: "ws_msg \<Rightarrow> bytes" where
  "msg_bytes m = (case m of Complete b \<Rightarrow> b | Torn b \<Rightarrow> b)"

definition conn_NextReader :: "ws_conn \<Rightarrow> (error + ws_msg) \<times> ws_conn" where
  "conn_NextReader c =
     (case incoming c of
        [] \<Rightarrow> (Inl (read_err c), c)
      | m # ms \<Rightarrow> (Inr m, c\<lparr>incoming := (case m of Complete _ \<Rightarrow> ms | Torn _ \<Rightarrow> [])\<rparr>))"

text \<open>\<open>io.ReadAll\<close> of a message reader.\<close>

definition reader_ReadAll :: "ws_conn \<Rightarrow> ws_msg \<Rightarrow> error + bytes" where
  "reader_ReadAll c m = (case m of Complete b \<Rightarrow> Inr b | Torn _ \<Rightarrow> Inl (read_err c))"

definition conn_ReadMessage :: "ws_conn \<Rightarrow> (error + bytes) \<times> ws_conn" where
  "conn_ReadMessage c =
     (case conn_NextReader c of
        (Inl err, c') \<Rightarrow> (Inl err, c')
      | (Inr m, c') \<Rightarrow> (reader_ReadAll c' m, c'))"

definition conn_WriteMessage :: "ws_conn \<Rightarrow> nat \<Rightarrow> ws_payload \<Rightarrow> error option \<times> ws_conn" where
  "conn_WriteMessage c typ b =
     (case write_err c of
        Some err \<Rightarrow> (Some err, c)
      | None \<Rightarrow>
          if close_sent c then (Some ErrCloseSent, c)
          else (None, c\<lparr>outgoing := outgoing c @ [(typ, b)],
                         close_sent := (typ = CloseMessage)\<rparr>))"

record webSocketTransport =
  ws_conn :: ws_conn
  ws_once :: bool
  ws_resOnce :: bool
  ws_closed :: bool
  ws_reqHeader :: "http_Header option"
  ws_header :: "http_Header option"
  ws_trailer :: "http_Header option"

definition ws_Header :: "webSocketTransport \<Rightarrow> http_Header option \<times> error option" where
  "ws_Header t = (ws_header t, None)"

definition ws_SetRequestHeader :: "webSocketTransport \<Rightarrow> http_Header \<Rightarrow> webSocketTransport" where
  "ws_SetRequestHeader t h = t\<lparr>ws_reqHeader := Some h\<rparr>"

definition ws_writeMessage ::
  "webSocketTransport \<Rightarrow> nat \<Rightarrow> ws_payload \<Rightarrow> error option \<times> webSocketTransport" where
  "ws_writeMessage t typ b =
     (case conn_WriteMessage (ws_conn t) typ b of (err, c) \<Rightarrow> (err, t\<lparr>ws_conn := c\<rparr>))"

text \<open>
  The function \<open>Send\<close> runs once (\<open>t.once.Do\<close>): it completes the request header, in
  the caller's map when there is one, and writes it as the first message.
\<close>

definition ws_send_header :: "webSocketTransport \<Rightarrow> error option \<times> webSocketTransport" where
  "ws_send_header t =
     (if ws_once t then (None, t)
      else (let h0 = (case ws_reqHeader t of None \<Rightarrow> [] | Some h \<Rightarrow> h);
                h = Header_Set (Header_Set h0 ''content-type'' ''application/grpc-web+proto'')
                      ''x-grpc-web'' ''1'';
                t1 = t\<lparr>ws_once := True,
                       ws_reqHeader := (case ws_reqHeader t of None \<Rightarrow> None | Some _ \<Rightarrow> Some h)\<rparr>
            in ws_writeMessage t1 BinaryMessage (HeaderText h)))"

text \<open>\<open>webSocketTransport.Send\<close>; the body is an in-memory buffer, so copying it cannot fail.\<close>

definition ws_Send :: "webSocketTransport \<Rightarrow> bytes \<Rightarrow> error option \<times> webSocketTransport" where
  "ws_Send t body =
     (if ws_closed t then (Some EOF, t)
      else case ws_send_header t of
             (Some err, t1) \<Rightarrow> (Some err, t1)
           | (None, t1) \<Rightarrow> ws_writeMessage t1 BinaryMessage (Raw (0x00 # body)))"

definition ws_CloseSend :: "webSocketTransport \<Rightarrow> error option \<times> webSocketTransport" where
  "ws_CloseSend t =
     (case ws_writeMessage t BinaryMessage (Raw [0x01]) of
        (Some err, t1) \<Rightarrow> (Some (Errorf ''failed to write message to a websocket'' err), t1)
      | (None, t1) \<Rightarrow> (None, t1))"

text \<open>\<open>websocket.FormatCloseMessage(CloseNormalClosure, "")\<close>: the code, big-endian.\<close>

definition ws_Close :: "webSocketTransport \<Rightarrow> error option \<times> webSocketTransport" where
  "ws_Close t =
     (case ws_writeMessage t CloseMessage (Raw [0x03, 0xE8]) of
        (Some err, t1) \<Rightarrow> (Some err, t1)
      | (None, t1) \<Rightarrow> (None, t1\<lparr>ws_closed := True, ws_conn := (ws_conn t1)\<lparr>conn_closed := True\<rparr>\<rparr>))"

text \<open>
  The lines a \<open>bufio.Scanner\<close> gives: ended by LF, a CR before it dropped, the last line
  given also without its LF.
\<close>

definition drop_cr :: "string \<Rightarrow> string" where
  "drop_cr l = (if l \<noteq> [] \<and> last l = CHR 0x0D then butlast l else l)"

fun scan_lines :: "string \<Rightarrow> string \<Rightarrow> string list" where
  "scan_lines cur [] = (if cur = [] then [] else [drop_cr (rev cur)])"
| "scan_lines cur (c # cs) =
     (if c = CHR 0x0A then drop_cr (rev cur) # scan_lines [] cs else scan_lines (c # cur) cs)"

definition header_line :: "http_Header \<Rightarrow> string \<Rightarrow> http_Header" where
  "header_line h l =
     (case split_kv [] l of None \<Rightarrow> h | Some (k, v) \<Rightarrow> Header_Add h (ToLower k) v)"

text \<open>
  The function \<open>Receive\<close> runs once (\<open>t.resOnce.Do\<close>): the first message is skipped,
  the second is read as the response header. An error of the second read is assigned
  to a variable of the closure's own and so is lost, like the error of the first, which
  the read of the body overwrites.
\<close>

definition ws_read_header :: "webSocketTransport \<Rightarrow> webSocketTransport" where
  "ws_read_header t =
     (if ws_resOnce t then t
      else case conn_NextReader (ws_conn t) of
             (Inl err, c1) \<Rightarrow> t\<lparr>ws_resOnce := True, ws_conn := c1\<rparr>
           | (Inr _, c1) \<Rightarrow>
               (case conn_NextReader c1 of
                  (Inl err, c2) \<Rightarrow> t\<lparr>ws_resOnce := True, ws_conn := c2\<rparr>
                | (Inr msg, c2) \<Rightarrow>
                    t\<lparr>ws_resOnce := True, ws_conn := c2,
                      ws_header := Some (foldl header_line []
                                           (scan_lines [] (string_of_bytes (msg_bytes msg))))\<rparr>))"

text \<open>The deferred function of \<open>Receive\<close>: a permanent network error becomes \<open>io.EOF\<close>.\<close>

definition receive_deferred :: "error \<Rightarrow> error" where
  "receive_deferred err =
     (case errors_Cause err of NetOpError temporary \<Rightarrow> (if \<not> temporary then EOF else err)
      | _ \<Rightarrow> err)"

text \<open>\<open>webSocketTransport.Receive\<close>: the bytes of the next two messages, joined.\<close>

definition ws_Receive :: "webSocketTransport \<Rightarrow> (error + bytes) result \<times> webSocketTransport" where
  "ws_Receive t =
     (if ws_closed t then (Ret (Inl EOF), t)
      else (let t1 = ws_read_header t
            in case conn_ReadMessage (ws_conn t1) of
                 (Inl err, c1) \<Rightarrow>
                   (Ret (Inl (case err of
                                CloseError code \<Rightarrow>
                                  if code = CloseNormalClosure then EOF
                                  else if code = CloseAbnormalClosure then ErrUnexpectedEOF
                                  else receive_deferred (Wrap err ''failed to read response body'')
                              | _ \<Rightarrow> receive_deferred (Wrap err ''failed to read response body''))),
                    t1\<lparr>ws_conn := c1\<rparr>)
               | (Inr b, c1) \<Rightarrow>
                   (case conn_NextReader c1 of
                      (Inl err, c2) \<Rightarrow> (Ret (Inl (receive_deferred err)), t1\<lparr>ws_conn := c2\<rparr>)
                    | (Inr r, c2) \<Rightarrow>
                        (case reader_ReadAll c2 r of
                           Inl err \<Rightarrow> (Panic ''io.ReadAll failed'', t1\<lparr>ws_conn := c2\<rparr>)
                         | Inr by \<Rightarrow> (Ret (Inr (b @ by)), t1\<lparr>ws_conn := c2\<rparr>)))))"

section \<open>The client-streaming call\<close>

record 'm clientStream =
  cs_ctx :: "MD option"
  cs_endpoint :: string
  cs_transport :: webSocketTransport
  cs_callOptions :: "'m callOptions"
  cs_trailersOnly :: bool
  cs_closed :: bool
  cs_headerMD :: "MD option"
  cs_trailerMD :: "MD option"

text \<open>\<open>clientStream.Header\<close>: the cached header, fetched from the transport when absent.\<close>

definition clientStream_Header ::
  "'m clientStream \<Rightarrow> (MD option \<times> error option) \<times> 'm clientStream" where
  "clientStream_Header s =
     (if cs_trailersOnly s then ((None, None), s)
      else case cs_headerMD s of
             Some h \<Rightarrow> ((Some h, None), s)
           | None \<Rightarrow>
               (case ws_Header (cs_transport s) of
                  (headers, Some err) \<Rightarrow> ((None, Some (Wrap err ''failed to get headers'')), s)
                | (headers, None) \<Rightarrow>
                    (let md = append_all (case headers of None \<Rightarrow> [] | Some h \<Rightarrow> h)
                     in ((Some md, None), s\<lparr>cs_headerMD := Some md\<rparr>))))"

definition clientStream_Trailer :: "'m clientStream \<Rightarrow> (MD option) result" where
  "clientStream_Trailer s =
     (if \<not> cs_closed s
      then Panic ''Trailer must be called after stream.CloseAndReceive has been called''
      else Ret (cs_trailerMD s))"

definition clientStream_CloseSend :: "'m clientStream \<Rightarrow> error option \<times> 'm clientStream" where
  "clientStream_CloseSend s =
     (case ws_CloseSend (cs_transport s) of
        (Some err, t) \<Rightarrow> (Some (Errorf ''failed to close the send stream'' err), s\<lparr>cs_transport := t\<rparr>)
      | (None, t) \<Rightarrow> (None, s\<lparr>cs_transport := t, cs_closed := True\<rparr>))"

definition clientStream_SendMsg ::
  "'m clientStream \<Rightarrow> 'm \<Rightarrow> (error option) result \<times> 'm clientStream" where
  "clientStream_SendMsg s req =
     (case co_codec (cs_callOptions s) of
        None \<Rightarrow> (Panic ''invalid memory address or nil pointer dereference'', s)
      | Some cdc \<Rightarrow>
          (case encodeRequestBody cdc req of
             Inl err \<Rightarrow> (Ret (Some (Wrap err ''failed to build the request'')), s)
           | Inr r \<Rightarrow>
               (let t = ws_SetRequestHeader (cs_transport s) (add_outgoing [] (cs_ctx s))
                in case ws_Send t r of
                     (Some err, t1) \<Rightarrow>
                       (Ret (Some (Wrap err ''failed to send the request'')), s\<lparr>cs_transport := t1\<rparr>)
                   | (None, t1) \<Rightarrow> (Ret None, s\<lparr>cs_transport := t1\<rparr>))))"

definition clientStream_isTrailerOnly :: "'m clientStream \<Rightarrow> error option \<Rightarrow> bool" where
  "clientStream_isTrailerOnly s err =
     ((case err of None \<Rightarrow> False | Some e \<Rightarrow> errors_Is e ErrUnexpectedEOF)
      \<and> MD_Len (cs_trailerMD s) = 0)"

text \<open>
  The trailers-only branch of \<open>RecvMsg\<close>: the header block stands in for the trailer.
\<close>

definition recv_trailers_only ::
  "'m clientStream \<Rightarrow> (error option \<times> 'm option) result \<times> 'm clientStream" where
  "recv_trailers_only s =
     (case clientStream_Header s of
        ((trailer, Some err), s1) \<Rightarrow>
          (Ret (Some (Wrap err ''failed to get header instead of trailer''), None), s1)
      | ((trailer, None), s1) \<Rightarrow>
          (let s2 = s1\<lparr>cs_trailerMD := trailer, cs_trailersOnly := True\<rparr>
           in case statusFromHeader trailer of
                Panic p \<Rightarrow> (Panic p, s2)
              | Ret st \<Rightarrow> (Ret (Status_Err st, None), s2)))"

text \<open>The end of \<open>clientStream.RecvMsg\<close>: the frame at hand must be the trailer frame.\<close>

definition client_recv_trailer ::
  "parser \<Rightarrow> 'm clientStream \<Rightarrow> parser_Header \<Rightarrow> bytes \<Rightarrow> 'm option
     \<Rightarrow> (error option \<times> 'm option) result \<times> 'm clientStream" where
  "client_recv_trailer P s resHeader rawBody res =
     (if \<not> IsTrailerHeader P resHeader then (Ret (Some (New ''unexpected header''), res), s)
      else case ParseStatusAndTrailer P rawBody (ContentLength resHeader) of
             (Inl err, _) \<Rightarrow> (Ret (Some (Wrap err ''failed to parse status and trailer''), res), s)
           | (Inr (status, trailer), _) \<Rightarrow>
               (Ret (Status_Err status, res), s\<lparr>cs_trailerMD := trailer\<rparr>))"

text \<open>The message branch: the message, then a second \<open>Receive\<close> for the trailer.\<close>

definition client_recv_message ::
  "parser \<Rightarrow> 'm clientStream \<Rightarrow> parser_Header \<Rightarrow> bytes
     \<Rightarrow> (error option \<times> 'm option) result \<times> 'm clientStream" where
  "client_recv_message P s resHeader rawBody =
     (case ParseLengthPrefixedMessage P rawBody (ContentLength resHeader) of
        (Inl err, _) \<Rightarrow> (Ret (Some (Wrap err ''failed to parse the response body''), None), s)
      | (Inr resBody, _) \<Rightarrow>
          (case co_codec (cs_callOptions s) of
             None \<Rightarrow> (Panic ''invalid memory address or nil pointer dereference'', s)
           | Some cdc \<Rightarrow>
               (case Unmarshal cdc resBody of
                  Inl err \<Rightarrow>
                    (Ret (Some (Wrap err (''failed to unmarshal response body by codec '' @ Name cdc)),
                          None), s)
                | Inr m \<Rightarrow>
                    (case ws_Receive (cs_transport s) of
                       (Panic p, t) \<Rightarrow> (Panic p, s\<lparr>cs_transport := t\<rparr>)
                     | (Ret (Inl err), t) \<Rightarrow>
                         (Ret (Some (Wrap err ''failed to receive the response trailer''), Some m),
                          s\<lparr>cs_transport := t\<rparr>)
                     | (Ret (Inr rawBody2), t) \<Rightarrow>
                         (case ParseResponseHeader P rawBody2 of
                            (Inl err, _) \<Rightarrow>
                              (Ret (Some (Wrap err ''failed to parse response header2''), Some m),
                               s\<lparr>cs_transport := t\<rparr>)
                          | (Inr resHeader2, rb) \<Rightarrow>
                              client_recv_trailer P (s\<lparr>cs_transport := t\<rparr>) resHeader2 rb
                                (Some m))))))"

definition clientStream_RecvMsg ::
  "parser \<Rightarrow> 'm clientStream \<Rightarrow> (error option \<times> 'm option) result \<times> 'm clientStream" where
  "clientStream_RecvMsg P s =
     (case ws_Receive (cs_transport s) of
        (Panic p, t) \<Rightarrow> (Panic p, s\<lparr>cs_transport := t\<rparr>)
      | (Ret r, t) \<Rightarrow>
          (let s1 = s\<lparr>cs_transport := t\<rparr>
           in if clientStream_isTrailerOnly s1 (case r of Inl err \<Rightarrow> Some err | Inr _ \<Rightarrow> None)
              then recv_trailers_only s1
              else case r of
                     Inl err \<Rightarrow> (Ret (Some (Wrap err ''failed to receive the response''), None), s1)
                   | Inr rawBody \<Rightarrow>
                       (case ParseResponseHeader P rawBody of
                          (Inl err, _) \<Rightarrow>
                            (Ret (Some (Wrap err ''failed to parse response header''), None), s1)
                        | (Inr resHeader, rb) \<Rightarrow>
                            if IsMessageHeader P resHeader
                            then client_recv_message P s1 resHeader rb
                            else client_recv_trailer P s1 resHeader rb None)))"

section \<open>The bidirectional-streaming call\<close>

text \<open>
  \<open>bidiStream\<close> embeds a \<open>*clientStream\<close>: \<open>Header\<close>, \<open>Trailer\<close> and \<open>SendMsg\<close> are the
  client stream's; \<open>RecvMsg\<close>, \<open>CloseSend\<close> and \<open>isTrailerOnly\<close> are its own.
\<close>

record 'm bidiStream =
  bs_clientStream :: "'m clientStream"
  bs_sentCloseSend :: bool

definition bidiStream_Header ::
  "'m bidiStream \<Rightarrow> (MD option \<times> error option) \<times> 'm bidiStream" where
  "bidiStream_Header s =
     (case clientStream_Header (bs_clientStream s) of (r, c) \<Rightarrow> (r, s\<lparr>bs_clientStream := c\<rparr>))"

definition bidiStream_Trailer :: "'m bidiStream \<Rightarrow> (MD option) result" where
  "bidiStream_Trailer s = clientStream_Trailer (bs_clientStream s)"

definition bidiStream_SendMsg ::
  "'m bidiStream \<Rightarrow> 'm \<Rightarrow> (error option) result \<times> 'm bidiStream" where
  "bidiStream_SendMsg s req =
     (case clientStream_SendMsg (bs_clientStream s) req of
        (r, c) \<Rightarrow> (r, s\<lparr>bs_clientStream := c\<rparr>))"

definition bidiStream_CloseSend :: "'m bidiStream \<Rightarrow> error option \<times> 'm bidiStream" where
  "bidiStream_CloseSend s =
     (case ws_CloseSend (cs_transport (bs_clientStream s)) of
        (Some err, t) \<Rightarrow>
          (Some (Wrap err ''failed to close the send stream''),
           s\<lparr>bs_clientStream := (bs_clientStream s)\<lparr>cs_transport := t\<rparr>\<rparr>)
      | (None, t) \<Rightarrow>
          (None, s\<lparr>bs_clientStream := (bs_clientStream s)\<lparr>cs_transport := t\<rparr>,
                   bs_sentCloseSend := True\<rparr>))"

definition bidiStream_isTrailerOnly :: "'m bidiStream \<Rightarrow> error option \<Rightarrow> bool" where
  "bidiStream_isTrailerOnly s err =
     (bs_sentCloseSend s \<and> clientStream_isTrailerOnly (bs_clientStream s) err)"

text \<open>The frame branch of \<open>bidiStream.RecvMsg\<close> (the \<open>switch\<close> on the frame header).\<close>

definition bidi_recv_frame ::
  "parser \<Rightarrow> 'm clientStream \<Rightarrow> parser_Header \<Rightarrow> bytes
     \<Rightarrow> (error option \<times> 'm option) result \<times> 'm clientStream" where
  "bidi_recv_frame P c resHeader rawBody =
     (if IsMessageHeader P resHeader
      then (case ParseLengthPrefixedMessage P rawBody (ContentLength resHeader) of
              (Inl err, _) \<Rightarrow> (Ret (Some err, None), c)
            | (Inr msg, _) \<Rightarrow>
                (case co_codec (cs_callOptions c) of
                   None \<Rightarrow> (Panic ''invalid memory address or nil pointer dereference'', c)
                 | Some cdc \<Rightarrow>
                     (case Unmarshal cdc msg of
                        Inl err \<Rightarrow> (Ret (Some (Wrap err ''failed to unmarshal response body''), None), c)
                      | Inr m \<Rightarrow> (Ret (None, Some m), c))))
      else if IsTrailerHeader P resHeader
      then (let c1 = c\<lparr>cs_closed := True\<rparr>
            in case ParseStatusAndTrailer P rawBody (ContentLength resHeader) of
                 (Inl err, _) \<Rightarrow> (Ret (Some (Wrap err ''failed to parse trailer''), None), c1)
               | (Inr (status, trailer), _) \<Rightarrow>
                   (Ret (if Code status \<noteq> codes_OK then Status_Err status else Some EOF, None),
                    c1\<lparr>cs_trailerMD := trailer\<rparr>))
      else (Ret (Some (New ''unexpected header''), None), c))"

definition bidiStream_RecvMsg ::
  "parser \<Rightarrow> 'm bidiStream \<Rightarrow> (error option \<times> 'm option) result \<times> 'm bidiStream" where
  "bidiStream_RecvMsg P s =
     (if cs_closed (bs_clientStream s) then (Ret (Some EOF, None), s)
      else case ws_Receive (cs_transport (bs_clientStream s)) of
             (Panic p, t) \<Rightarrow> (Panic p, s\<lparr>bs_clientStream := (bs_clientStream s)\<lparr>cs_transport := t\<rparr>\<rparr>)
           | (Ret r, t) \<Rightarrow>
               (let c1 = (bs_clientStream s)\<lparr>cs_transport := t\<rparr>
                in if bidiStream_isTrailerOnly (s\<lparr>bs_clientStream := c1\<rparr>)
                        (case r of Inl err \<Rightarrow> Some err | Inr _ \<Rightarrow> None)
                   then (case recv_trailers_only (c1\<lparr>cs_closed := True\<rparr>) of
                           (res, c2) \<Rightarrow> (res, s\<lparr>bs_clientStream := c2\<rparr>))
                   else case r of
                          Inl err \<Rightarrow>
                            (Ret (Some (Wrap err ''failed to receive the response''), None),
                             s\<lparr>bs_clientStream := c1\<rparr>)
                        | Inr rawBody \<Rightarrow>
                            (case ParseResponseHeader P rawBody of
                               (Inl err, _) \<Rightarrow>
                                 (Ret (Some (Wrap err ''failed to parse response header''), None),
                                  s\<lparr>bs_clientStream := c1\<rparr>)
                             | (Inr resHeader, rb) \<Rightarrow>
                                 (case bidi_recv_frame P c1 resHeader rb of
                                    (res, c2) \<Rightarrow> (res, s\<lparr>bs_clientStream := c2\<rparr>)))))"

section \<open>Notions used to state the properties\<close>

text \<open>
  What a list of dial options leaves in effect: \<open>WithInsecure\<close> is never undone, and of
  several \<open>WithTLSConfig\<close> the last one counts.
\<close>

fun is_WithTLSConfig :: "DialOption \<Rightarrow> bool" where
  "is_WithTLSConfig (WithTLSConfig c) = True"
| "is_WithTLSConfig _ = False"

fun conf_of :: "DialOption \<Rightarrow> tls_Config option" where
  "conf_of (WithTLSConfig c) = c"
| "conf_of _ = None"

definition tls_in_effect :: "DialOption list \<Rightarrow> tls_Config option" where
  "tls_in_effect opts =
     (case filter is_WithTLSConfig opts of [] \<Rightarrow> None | cs \<Rightarrow> conf_of (last cs))"

text \<open>Example values: a codec that passes bytes through, and streams to run.\<close>

definition raw_codec :: "bytes codec" where
  "raw_codec = \<lparr>Name = ''raw'', Marshal = Inr, Unmarshal = Inr\<rparr>"

text \<open>A server stream whose request has been sent and whose response body is \<open>bs\<close>.\<close>

definition server_stream_on :: "bytes \<Rightarrow> bytes serverStream" where
  "server_stream_on bs =
     \<lparr>ss_ctx = None, ss_endpoint = ''/svc/Method'',
      ss_transport = \<lparr>ht_url = ''https://example.org'', ht_header = [], ht_sent = True\<rparr>,
      ss_resStream = Some \<lparr>unread = bs, body_closed = False\<rparr>,
      ss_callOptions = \<lparr>co_codec = Some raw_codec, co_header = None, co_trailer = None\<rparr>,
      ss_closed = False, ss_header = None, ss_trailer = None\<rparr>"

text \<open>The 16 bytes of the trailer line \<open>grpc-status: 0\<close> with its CR LF.\<close>

definition status_line :: bytes where
  "status_line = bytes_of_string (''grpc-status: 0'' @ [CHR 0x0D, CHR 0x0A])"

text \<open>
  The streams as \<open>NewStream\<close> builds them: the transport that \<open>transport.NewClientStream\<close>
  returns on a dialled connection, and a client or bidi stream on it.
\<close>

definition new_webSocketTransport :: "ws_conn \<Rightarrow> webSocketTransport" where
  "new_webSocketTransport c =
     \<lparr>ws_conn = c, ws_once = False, ws_resOnce = False, ws_closed = False,
      ws_reqHeader = None, ws_header = None, ws_trailer = None\<rparr>"

definition new_clientStream ::
  "MD option \<Rightarrow> string \<Rightarrow> webSocketTransport \<Rightarrow> 'm callOptions \<Rightarrow> 'm clientStream" where
  "new_clientStream ctx method tr co =
     \<lparr>cs_ctx = ctx, cs_endpoint = method, cs_transport = tr, cs_callOptions = co,
      cs_trailersOnly = False, cs_closed = False, cs_headerMD = None, cs_trailerMD = None\<rparr>"

definition new_bidiStream :: "'m clientStream \<Rightarrow> 'm bidiStream" where
  "new_bidiStream c = \<lparr>bs_clientStream = c, bs_sentCloseSend = False\<rparr>"

text \<open>The calls a caller can make on a stream, and the stream after one of them.\<close>

datatype 'm stream_op = OpSendMsg 'm | OpCloseSend | OpRecvMsg | OpHeader | OpTrailer

fun client_step :: "parser \<Rightarrow> 'm clientStream \<Rightarrow> 'm stream_op \<Rightarrow> 'm clientStream" where
  "client_step P s (OpSendMsg m) = snd (clientStream_SendMsg s m)"
| "client_step P s OpCloseSend = snd (clientStream_CloseSend s)"
| "client_step P s OpRecvMsg = snd (clientStream_RecvMsg P s)"
| "client_step P s OpHeader = snd (clientStream_Header s)"
| "client_step P s OpTrailer = s"

fun bidi_step :: "parser \<Rightarrow> 'm bidiStream \<Rightarrow> 'm stream_op \<Rightarrow> 'm bidiStream" where
  "bidi_step P s (OpSendMsg m) = snd (bidiStream_SendMsg s m)"
| "bidi_step P s OpCloseSend = snd (bidiStream_CloseSend s)"
| "bidi_step P s OpRecvMsg = snd (bidiStream_RecvMsg P s)"
| "bidi_step P s OpHeader = snd (bidiStream_Header s)"
| "bidi_step P s OpTrailer = s"

text \<open>
  Example values: a connection on which the given messages arrive and then an abnormal
  closure, and on which writes succeed; streams on it with the pass-through codec; a
  world whose HTTP client answers every request with the given response.
\<close>

definition conn_delivering :: "ws_msg list \<Rightarrow> ws_conn" where
  "conn_delivering ms =
     \<lparr>incoming = ms, read_err = CloseError 1006, outgoing = [], write_err = None,
      close_sent = False, conn_closed = False\<rparr>"

definition client_stream_on :: "ws_msg list \<Rightarrow> bytes clientStream" where
  "client_stream_on ms =
     new_clientStream None ''/svc/Method'' (new_webSocketTransport (conn_delivering ms))
       \<lparr>co_codec = Some raw_codec, co_header = None, co_trailer = None\<rparr>"

definition bidi_stream_on :: "ws_msg list \<Rightarrow> bytes bidiStream" where
  "bidi_stream_on ms = new_bidiStream (client_stream_on ms)"

definition world_answering :: "http_Response \<Rightarrow> world" where
  "world_answering res =
     \<lparr>url_Parse = (\<lambda>u. None), NewRequest = (\<lambda>u. None), client_Do = (\<lambda>req. Inr res)\<rparr>"


text \<open>
  What arrives on a stream whose response is a single trailer frame: the two messages of
  the preamble, then the frame, split over two messages as \<open>Receive\<close> reads it.
\<close>

definition trailer_script :: "ws_msg list" where
  "trailer_script = [Complete [], Complete [], Complete ([0x80, 0, 0, 0, 16] @ status_line), Complete []]"

text \<open>A client stream whose transport has been closed with \<open>Close\<close>.\<close>

definition client_stream_closed :: "bytes clientStream" where
  "client_stream_closed =
     (client_stream_on [])\<lparr>cs_transport := snd (ws_Close (cs_transport (client_stream_on [])))\<rparr>"

text \<open>What arrives on a stream whose response starts with one data frame of one byte.\<close>

definition data_script :: "ws_msg list" where
  "data_script = [Complete [], Complete [], Complete [0x00, 0, 0, 0, 1, 7], Complete []]"

section \<open>Constructing a connection\<close>

lemma insecure_foldl_apply:
  "insecure (foldl apply_DialOption opt opts) = (insecure opt \<or> WithInsecure \<in> set opts)"
proof (induction opts rule: rev_induct)
  case Nil
  show ?case by simp
next
  case (snoc o' opts)
  show ?case by (cases o') (auto simp: snoc.IH)
qed

lemma case_snoc_last: "(case xs @ [x] of [] \<Rightarrow> a | c # cs \<Rightarrow> f (last (c # cs))) = f x"
  by (cases xs) simp_all

lemma tlsConf_foldl_apply:
  "tlsConf (foldl apply_DialOption opt opts) =
     (case filter is_WithTLSConfig opts of [] \<Rightarrow> tlsConf opt | c # cs \<Rightarrow> conf_of (last (c # cs)))"
proof (induction opts rule: rev_induct)
  case Nil
  show ?case by simp
next
  case (snoc o' opts)
  show ?case by (cases o') (simp_all add: snoc.IH case_snoc_last del: last.simps)
qed

lemma tlsConf_default: "tlsConf (foldl apply_DialOption defaultDialOptions opts) = tls_in_effect opts"
  by (simp add: tlsConf_foldl_apply tls_in_effect_def defaultDialOptions_def split: list.splits)

lemma insecure_default: "insecure (foldl apply_DialOption defaultDialOptions opts) = (WithInsecure \<in> set opts)"
  by (simp add: insecure_foldl_apply defaultDialOptions_def)

text \<open>
  C9. For every host and option list, \<open>DialContext\<close> and \<open>NewClient\<close> return a nil
  connection and \<open>ErrInsecureWithTLS\<close> when the options hold the insecure option and
  leave a non-nil TLS configuration in effect; for every other list they return a
  connection (with that host and those options) and a nil error.
\<close>

theorem dial_insecure_with_tls:
  "DialContext h opts =
     (if WithInsecure \<in> set opts \<and> tls_in_effect opts \<noteq> None
      then (None, Some ErrInsecureWithTLS)
      else (Some \<lparr>host = h, conn_dialOptions = foldl apply_DialOption defaultDialOptions opts\<rparr>, None))
   \<and> NewClient h opts = DialContext h opts"
  by (simp add: DialContext_def NewClient_def Let_def insecure_default tlsConf_default)

section \<open>Status from metadata\<close>

lemma ToLower_grpc_status: "ToLower ''grpc-status'' = ''grpc-status''"
  by code_simp

lemma ToLower_grpc_message: "ToLower ''grpc-message'' = ''grpc-message''"
  by code_simp

lemmas MD_Get_keys = MD_Get_def ToLower_grpc_status ToLower_grpc_message

text \<open>
  C3, as the code has it. A status that \<open>statusFromHeader\<close> (the trailers-only path of a
  stream) derives from metadata with no value under grpc-status has code Unknown and is
  an error. A status that \<open>checkStatus\<close> (the response headers of a unary call) derives
  from such metadata has code OK, with the first grpc-message value as its message if
  there is one.
\<close>

theorem status_without_grpc_status:
  assumes "MD_Get h ''grpc-status'' = []"
  shows "statusFromHeader h =
           Ret (status_New codes_Unknown (Str ''response closed without grpc-status (headers only)''))
         \<and> Status_Err (status_New codes_Unknown (Str ''response closed without grpc-status (headers only)''))
             = Some (StatusError codes_Unknown (Str ''response closed without grpc-status (headers only)''))
         \<and> checkStatus h =
             status_New codes_OK (Str (case MD_Get h ''grpc-message'' of [] \<Rightarrow> [] | m # _ \<Rightarrow> m))"
  using assms
  by (simp add: statusFromHeader_def checkStatus_def Status_Err_def status_New_def
        codes_OK_def codes_Unknown_def split: list.splits)

theorem status_without_grpc_status_witness:
  "MD_Get (Some [(''grpc-message'', [''late'']), (''content-type'', [''application/grpc-web+proto''])])
     ''grpc-status'' = []
   \<and> statusFromHeader
         (Some [(''grpc-message'', [''late'']), (''content-type'', [''application/grpc-web+proto''])])
       = Ret (status_New codes_Unknown (Str ''response closed without grpc-status (headers only)''))
   \<and> checkStatus
         (Some [(''grpc-message'', [''late'']), (''content-type'', [''application/grpc-web+proto''])])
       = status_New codes_OK (Str ''late'')"
proof -
  have h: "MD_Get (Some [(''grpc-message'', [''late'']),
                         (''content-type'', [''application/grpc-web+proto''])]) ''grpc-status'' = []"
    by (simp add: MD_Get_keys md_lookup_def)
  have m: "MD_Get (Some [(''grpc-message'', [''late'']),
                         (''content-type'', [''application/grpc-web+proto''])]) ''grpc-message'' = [''late'']"
    by (simp add: MD_Get_keys md_lookup_def)
  from status_without_grpc_status [OF h] h m show ?thesis
    by (simp only: list.case)
qed

text \<open>
  C3 as stated fails for \<open>checkStatus\<close>: metadata without grpc-status gives code OK,
  which is no error.
\<close>

theorem checkStatus_no_status_counterexample:
  "MD_Get (Some [(''content-type'', [''application/grpc-web+proto''])]) ''grpc-status'' = []
   \<and> Code (checkStatus (Some [(''content-type'', [''application/grpc-web+proto''])])) = codes_OK
   \<and> Status_Err (checkStatus (Some [(''content-type'', [''application/grpc-web+proto''])])) = None
   \<and> codes_OK \<noteq> codes_Unknown"
  by (simp add: checkStatus_def MD_Get_keys md_lookup_def
        status_New_def Status_Err_def codes_OK_def codes_Unknown_def)

lemma atoi_3: "Atoi ''3'' = Inr 3"
  by (simp add: Atoi_def is_digit_def digit_val_def)

text \<open>
  The index \<open>msgs[0]\<close> of \<open>statusFromHeader\<close> is taken whenever grpc-status parses,
  also when there is no grpc-message.
\<close>

lemma statusFromHeader_message_missing:
  assumes "MD_Get h ''grpc-status'' = c # cs" and "Atoi c = Inr i"
      and "MD_Get h ''grpc-message'' = []"
  shows "statusFromHeader h = Panic ''index out of range [0] with length 0''"
  using assms by (simp add: statusFromHeader_def)

lemma statusFromHeader_message_present:
  assumes "MD_Get h ''grpc-status'' = c # cs" and "Atoi c = Inr i"
      and "MD_Get h ''grpc-message'' = m # ms"
  shows "statusFromHeader h = Ret (status_New (word_of_int i) (Str m))"
  using assms by (simp add: statusFromHeader_def)

text \<open>
  C6 at a failing input: a header block with \<open>grpc-status: 3\<close> and no grpc-message.
  \<open>statusFromHeader\<close> panics there instead of returning code 3 with an empty message.
\<close>

theorem statusFromHeader_without_message_panics:
  "statusFromHeader (Some [(''grpc-status'', [''3''])]) = Panic ''index out of range [0] with length 0''"
  by (simp add: statusFromHeader_def MD_Get_keys md_lookup_def atoi_3)

section \<open>Frames\<close>

lemma Uint32_PutUint32: "Uint32 (PutUint32 v) = v"
  unfolding Uint32_def PutUint32_def
proof (rule bit_word_eqI)
  fix n
  assume "n < LENGTH(32)"
  then show "bit (ucast ([ucast (drop_bit 24 v), ucast (drop_bit 16 v), ucast (drop_bit 8 v), ucast v :: byte] ! 3) OR
             push_bit 8 (ucast ([ucast (drop_bit 24 v), ucast (drop_bit 16 v), ucast (drop_bit 8 v), ucast v :: byte] ! 2)) OR
             push_bit 16 (ucast ([ucast (drop_bit 24 v), ucast (drop_bit 16 v), ucast (drop_bit 8 v), ucast v :: byte] ! 1)) OR
             push_bit 24 (ucast ([ucast (drop_bit 24 v), ucast (drop_bit 16 v), ucast (drop_bit 8 v), ucast v :: byte] ! 0)) :: uint32) n
             = bit v n"
    by (cases "24 \<le> n"; cases "16 \<le> n"; cases "8 \<le> n") (auto simp: bit_simps)
qed

lemma unat_len: "n < 2 ^ 32 \<Longrightarrow> unat (word_of_nat n :: uint32) = n"
  by (simp add: unat_of_nat)

lemma header_eq: "header (int n) = 0 # PutUint32 (of_nat n)"
  by (simp add: header_def)

lemma length_PutUint32: "length (PutUint32 v) = 4"
  by (simp add: PutUint32_def)

lemma take_drop_frame:
  "take 5 (0 # PutUint32 v @ p) = 0 # PutUint32 v"
  "drop 5 (0 # PutUint32 v @ p) = p"
  "take 4 (drop 1 (0 # PutUint32 v @ p)) = PutUint32 v"
  by (simp_all add: PutUint32_def)




lemma Uint32_16: "Uint32 [0, 0, 0, 16] = 16"
  by code_simp

lemma Uint32_1: "Uint32 [0, 0, 0, 1] = 1"
  by code_simp










lemma recv_encoded:
  assumes "ss_resStream s = Some \<lparr>unread = 0 # PutUint32 (of_nat (length p)) @ p @ rest, body_closed = False\<rparr>"
      and "0 < length p" and "length p < 2 ^ 32"
      and "co_codec (ss_callOptions s) = Some cdc'" and "Unmarshal cdc' p = Inr m"
  shows "serverStream_RecvMsg spec_parser s =
           (Ret (None, Some m), s\<lparr>ss_resStream := Some \<lparr>unread = rest, body_closed = False\<rparr>\<rparr>)"
proof -
  have ne: "(of_nat (length p) :: uint32) \<noteq> 0"
    using assms(2,3) unat_len [of "length p"] by auto
  have len5: "length (take 5 (0 # PutUint32 (of_nat (length p)) @ p @ rest)) = 5"
    by (simp add: PutUint32_def)
  show ?thesis
    using assms ne
    by (simp add: serverStream_RecvMsg_def Let_def take_drop_frame Uint32_PutUint32
          server_recv_message_def spec_parser_def spec_ParseLengthPrefixedMessage_def
          unat_len recv_return_def recv_deferred_def length_PutUint32)
qed

text \<open>
  C4, as the code has it. For every payload of fewer than \<open>2^32\<close> bytes, the encoded
  request is the flag byte 0, the length in four big-endian bytes and the payload;
  decoding the five header bytes gives a data frame of that length, reading that many
  bytes gives the payload back, and \<open>serverStream.RecvMsg\<close> hands exactly the payload
  to the codec when the payload is not empty.
\<close>

theorem encode_roundtrip:
  assumes "Marshal cdc x = Inr p" and "length p < 2 ^ 32"
  shows "encodeRequestBody cdc x = Inr (0 # PutUint32 (of_nat (length p)) @ p)
       \<and> unat (Uint32 (PutUint32 (of_nat (length p)))) = length p
       \<and> spec_ParseResponseHeader (0 # PutUint32 (of_nat (length p)) @ p @ rest)
           = (Inr \<lparr>flag = 0, ContentLength = of_nat (length p)\<rparr>, p @ rest)
       \<and> spec_IsMessageHeader \<lparr>flag = 0, ContentLength = of_nat (length p)\<rparr>
       \<and> spec_ParseLengthPrefixedMessage (p @ rest) (of_nat (length p)) = (Inr p, rest)
       \<and> (0 < length p
            \<and> ss_resStream s = Some \<lparr>unread = 0 # PutUint32 (of_nat (length p)) @ p @ rest,
                                     body_closed = False\<rparr>
            \<and> co_codec (ss_callOptions s) = Some cdc' \<and> Unmarshal cdc' p = Inr m
          \<longrightarrow> serverStream_RecvMsg spec_parser s =
                (Ret (None, Some m), s\<lparr>ss_resStream := Some \<lparr>unread = rest, body_closed = False\<rparr>\<rparr>))"
proof -
  have a: "encodeRequestBody cdc x = Inr (0 # PutUint32 (of_nat (length p)) @ p)"
    using assms(1) by (simp add: encodeRequestBody_def header_eq)
  have b: "unat (Uint32 (PutUint32 (of_nat (length p)))) = length p"
    using assms(2) by (simp add: Uint32_PutUint32 unat_len)
  have c: "spec_ParseResponseHeader (0 # PutUint32 (of_nat (length p)) @ p @ rest)
           = (Inr \<lparr>flag = 0, ContentLength = of_nat (length p)\<rparr>, p @ rest)"
    by (simp add: spec_ParseResponseHeader_def take_drop_frame Uint32_PutUint32 length_PutUint32)
  have d: "spec_IsMessageHeader \<lparr>flag = 0, ContentLength = of_nat (length p)\<rparr>"
    by (simp add: spec_IsMessageHeader_def)
  have e: "spec_ParseLengthPrefixedMessage (p @ rest) (of_nat (length p)) = (Inr p, rest)"
    using assms(2) by (simp add: spec_ParseLengthPrefixedMessage_def unat_len)
  have f: "0 < length p
            \<and> ss_resStream s = Some \<lparr>unread = 0 # PutUint32 (of_nat (length p)) @ p @ rest,
                                     body_closed = False\<rparr>
            \<and> co_codec (ss_callOptions s) = Some cdc' \<and> Unmarshal cdc' p = Inr m
          \<longrightarrow> serverStream_RecvMsg spec_parser s =
                (Ret (None, Some m), s\<lparr>ss_resStream := Some \<lparr>unread = rest, body_closed = False\<rparr>\<rparr>)"
    using recv_encoded [of s p rest cdc' m] assms(2) by simp
  from a b c d e f show ?thesis by (intro conjI)
qed


theorem encode_roundtrip_witness:
  "encodeRequestBody raw_codec [7, 8] = Inr (0 # PutUint32 2 @ [7, 8])
   \<and> spec_ParseResponseHeader (0 # PutUint32 2 @ [7, 8] @ [9]) = (Inr \<lparr>flag = 0, ContentLength = 2\<rparr>, [7, 8] @ [9])
   \<and> spec_ParseLengthPrefixedMessage ([7, 8] @ [9]) 2 = (Inr [7, 8], [9])
   \<and> serverStream_RecvMsg spec_parser (server_stream_on (0 # PutUint32 2 @ [7, 8] @ [9]))
       = (Ret (None, Some [7, 8]),
          (server_stream_on (0 # PutUint32 2 @ [7, 8] @ [9]))
            \<lparr>ss_resStream := Some \<lparr>unread = [9], body_closed = False\<rparr>\<rparr>)"
proof -
  have m: "Marshal raw_codec [7, 8] = Inr [7, 8]" by (simp add: raw_codec_def)
  have l: "length [7 :: byte, 8] < 2 ^ 32" by simp
  have s: "0 < length [7 :: byte, 8]
           \<and> ss_resStream (server_stream_on (0 # PutUint32 (of_nat (length [7 :: byte, 8])) @ [7, 8] @ [9]))
               = Some \<lparr>unread = 0 # PutUint32 (of_nat (length [7 :: byte, 8])) @ [7, 8] @ [9],
                       body_closed = False\<rparr>
           \<and> co_codec (ss_callOptions
                 (server_stream_on (0 # PutUint32 (of_nat (length [7 :: byte, 8])) @ [7, 8] @ [9])))
               = Some raw_codec
           \<and> Unmarshal raw_codec [7, 8] = Inr [7, 8]"
    by (simp add: server_stream_on_def raw_codec_def)
  from encode_roundtrip
         [OF m l, of "[9]"
             "server_stream_on (0 # PutUint32 (of_nat (length [7 :: byte, 8])) @ [7, 8] @ [9])"
             raw_codec "[7, 8]"] s
  show ?thesis by simp
qed

text \<open>
  C4 as stated fails for a payload of \<open>2^32\<close> bytes: the length field is
  \<open>uint32(len)\<close>, which is 0 there, so the header decodes to length 0 and
  \<open>serverStream.RecvMsg\<close> reports EOF without a message.
\<close>

theorem encode_roundtrip_counterexample:
  "length (replicate 4294967296 (0 :: byte)) = 4294967296
   \<and> encodeRequestBody raw_codec (replicate 4294967296 0) = Inr ([0, 0, 0, 0, 0] @ replicate 4294967296 0)
   \<and> fst (spec_ParseResponseHeader ([0, 0, 0, 0, 0] @ replicate 4294967296 0))
       = Inr \<lparr>flag = 0, ContentLength = 0\<rparr>
   \<and> fst (serverStream_RecvMsg spec_parser (server_stream_on ([0, 0, 0, 0, 0] @ replicate 4294967296 0)))
       = Ret (Some EOF, None)"
  by (simp add: encodeRequestBody_def raw_codec_def header_def PutUint32_def
        spec_ParseResponseHeader_def serverStream_RecvMsg_def server_stream_on_def Let_def
        Uint32_def recv_return_def)

section \<open>The unary call and the HTTP status\<close>




section \<open>Reading a bidi stream after its end\<close>

lemma bidi_closed_eof:
  "cs_closed (bs_clientStream s) \<Longrightarrow> bidiStream_RecvMsg P s = (Ret (Some EOF, None), s)"
  by (simp add: bidiStream_RecvMsg_def)

lemma bidi_closed_iter:
  "cs_closed (bs_clientStream s) \<Longrightarrow> ((\<lambda>x. snd (bidiStream_RecvMsg P x)) ^^ n) s = s"
  by (induction n) (simp_all add: bidi_closed_eof)

lemma bidi_trailer_closes:
  assumes "\<not> cs_closed (bs_clientStream s0)"
      and "ws_Receive (cs_transport (bs_clientStream s0)) = (Ret (Inr rawBody), t)"
      and "ParseResponseHeader P rawBody = (Inr h, rb)"
      and "\<not> IsMessageHeader P h" and "IsTrailerHeader P h"
  shows "cs_closed (bs_clientStream (snd (bidiStream_RecvMsg P s0)))"
  using assms
  by (simp add: bidiStream_RecvMsg_def bidiStream_isTrailerOnly_def clientStream_isTrailerOnly_def
        bidi_recv_frame_def Let_def split: prod.splits sum.splits)

text \<open>
  C8. A \<open>RecvMsg\<close> call on a bidi stream that reads a trailer frame marks the stream
  closed; on a closed stream every \<open>RecvMsg\<close> call, the first and each one after any
  number of further calls, returns EOF and leaves the stream, its transport and the
  socket as they were.
\<close>

theorem bidi_terminal_read:
  "(\<not> cs_closed (bs_clientStream s0)
      \<and> ws_Receive (cs_transport (bs_clientStream s0)) = (Ret (Inr rawBody), t)
      \<and> ParseResponseHeader P rawBody = (Inr h, rb)
      \<and> \<not> IsMessageHeader P h \<and> IsTrailerHeader P h
    \<longrightarrow> cs_closed (bs_clientStream (snd (bidiStream_RecvMsg P s0))))
   \<and> (cs_closed (bs_clientStream s)
    \<longrightarrow> bidiStream_RecvMsg P s = (Ret (Some EOF, None), s)
        \<and> bidiStream_RecvMsg P (((\<lambda>x. snd (bidiStream_RecvMsg P x)) ^^ n) s)
            = (Ret (Some EOF, None), s))"
  using bidi_trailer_closes [where ?s0.0 = s0 and rawBody = rawBody and t = t and P = P and h = h and rb = rb]
        bidi_closed_eof [where s = s and P = P]
        bidi_closed_iter [where s = s and P = P and n = n]
  by auto

lemma pair_of_fst: "fst p = a \<Longrightarrow> p = (a, snd p)"
  by auto

lemma receive_trailer_script:
  "fst (ws_Receive (cs_transport (bs_clientStream (bidi_stream_on trailer_script))))
     = Ret (Inr ([0x80, 0, 0, 0, 16] @ status_line))"
  by (simp add: trailer_script_def bidi_stream_on_def new_bidiStream_def client_stream_on_def
        new_clientStream_def new_webSocketTransport_def conn_delivering_def ws_Receive_def
        ws_read_header_def conn_NextReader_def conn_ReadMessage_def reader_ReadAll_def
        msg_bytes_def string_of_bytes_def Let_def)

lemma header_of_trailer_frame:
  "ParseResponseHeader spec_parser ([0x80, 0, 0, 0, 16] @ status_line)
     = (Inr \<lparr>flag = 0x80, ContentLength = 16\<rparr>, status_line)"
  by (simp add: spec_parser_def spec_ParseResponseHeader_def Uint32_16)

theorem bidi_terminal_read_witness:
  "\<not> cs_closed (bs_clientStream (bidi_stream_on trailer_script))
   \<and> cs_closed (bs_clientStream (snd (bidiStream_RecvMsg spec_parser (bidi_stream_on trailer_script))))
   \<and> bidiStream_RecvMsg spec_parser (snd (bidiStream_RecvMsg spec_parser (bidi_stream_on trailer_script)))
       = (Ret (Some EOF, None), snd (bidiStream_RecvMsg spec_parser (bidi_stream_on trailer_script)))"
proof -
  note th = bidi_terminal_read
              [where ?s0.0 = "bidi_stream_on trailer_script"
                 and rawBody = "[0x80, 0, 0, 0, 16] @ status_line"
                 and t = "snd (ws_Receive (cs_transport (bs_clientStream (bidi_stream_on trailer_script))))"
                 and P = spec_parser and h = "\<lparr>flag = 0x80, ContentLength = 16\<rparr>"
                 and rb = status_line
                 and s = "snd (bidiStream_RecvMsg spec_parser (bidi_stream_on trailer_script))"
                 and n = 1]
  have o: "\<not> cs_closed (bs_clientStream (bidi_stream_on trailer_script))"
    by (simp add: bidi_stream_on_def new_bidiStream_def client_stream_on_def new_clientStream_def)
  have k: "\<not> IsMessageHeader spec_parser \<lparr>flag = 0x80, ContentLength = 16\<rparr>
           \<and> IsTrailerHeader spec_parser \<lparr>flag = 0x80, ContentLength = 16\<rparr>"
    by (simp add: spec_parser_def spec_IsMessageHeader_def spec_IsTrailerHeader_def)
  from th o k pair_of_fst [OF receive_trailer_script] header_of_trailer_frame
  have c: "cs_closed (bs_clientStream (snd (bidiStream_RecvMsg spec_parser (bidi_stream_on trailer_script))))"
    by blast
  from th c
  have e: "bidiStream_RecvMsg spec_parser (snd (bidiStream_RecvMsg spec_parser (bidi_stream_on trailer_script)))
       = (Ret (Some EOF, None), snd (bidiStream_RecvMsg spec_parser (bidi_stream_on trailer_script)))"
    by blast
  from o c e show ?thesis by (intro conjI)
qed


section \<open>The header of a trailers-only client stream\<close>

lemma Header_trailersOnly:
  "cs_trailersOnly s \<Longrightarrow> clientStream_Header s = ((None, None), s)"
  by (simp add: clientStream_Header_def)

lemma Header_no_error: "snd (fst (clientStream_Header s)) = None"
  by (simp add: clientStream_Header_def ws_Header_def Let_def split: option.splits)

lemma Header_keeps_trailersOnly:
  "cs_trailersOnly (snd (clientStream_Header s)) = cs_trailersOnly s"
  by (simp add: clientStream_Header_def ws_Header_def Let_def split: option.splits)

lemma SendMsg_keeps_trailersOnly:
  "cs_trailersOnly (snd (clientStream_SendMsg s m)) = cs_trailersOnly s"
  by (simp add: clientStream_SendMsg_def Let_def split: option.splits sum.splits prod.splits)

lemma CloseSend_keeps_trailersOnly:
  "cs_trailersOnly (snd (clientStream_CloseSend s)) = cs_trailersOnly s"
  by (simp add: clientStream_CloseSend_def split: option.splits prod.splits)

lemma recv_trailers_only_sets:
  "cs_trailersOnly (snd (recv_trailers_only s))"
proof -
  obtain tr s1 where h: "clientStream_Header s = ((tr, None), s1)"
    using Header_no_error [of s] by (metis prod.collapse)
  show ?thesis
    by (simp add: recv_trailers_only_def h Let_def split: result.splits)
qed

lemma client_recv_trailer_keeps:
  "cs_trailersOnly (snd (client_recv_trailer P s h rb res)) = cs_trailersOnly s"
  by (simp add: client_recv_trailer_def split: prod.splits sum.splits)

lemma client_recv_message_keeps:
  "cs_trailersOnly (snd (client_recv_message P s h rb)) = cs_trailersOnly s"
  by (simp add: client_recv_message_def client_recv_trailer_keeps
        split: prod.splits sum.splits option.splits result.splits)

lemma RecvMsg_keeps_trailersOnly:
  "cs_trailersOnly s \<Longrightarrow> cs_trailersOnly (snd (clientStream_RecvMsg P s))"
  by (simp add: clientStream_RecvMsg_def Let_def recv_trailers_only_sets
        client_recv_trailer_keeps client_recv_message_keeps
        split: prod.splits sum.splits result.splits)

lemma RecvMsg_detects_trailersOnly:
  assumes "ws_Receive (cs_transport s0) = (Ret (Inl err), t)"
      and "errors_Is err ErrUnexpectedEOF" and "MD_Len (cs_trailerMD s0) = 0"
  shows "cs_trailersOnly (snd (clientStream_RecvMsg P s0))"
  using assms
  by (simp add: clientStream_RecvMsg_def Let_def clientStream_isTrailerOnly_def
        recv_trailers_only_sets)

lemma client_step_keeps_trailersOnly:
  "cs_trailersOnly s \<Longrightarrow> cs_trailersOnly (client_step P s op)"
  by (cases op)
     (simp_all add: SendMsg_keeps_trailersOnly CloseSend_keeps_trailersOnly
        Header_keeps_trailersOnly RecvMsg_keeps_trailersOnly)

lemma client_steps_keep_trailersOnly:
  "cs_trailersOnly s \<Longrightarrow> cs_trailersOnly (foldl (client_step P) s ops)"
  by (induction ops arbitrary: s) (simp_all add: client_step_keeps_trailersOnly)

text \<open>
  C10. A \<open>RecvMsg\<close> call on a client stream that detects a trailers-only response (the
  receive fails with an unexpected EOF and no trailer is stored) sets the trailers-only
  mark; with the mark set, \<open>Header\<close> returns nil metadata and a nil error and changes
  nothing, now and after any further calls on the stream.
\<close>

theorem header_after_trailers_only:
  "(ws_Receive (cs_transport s0) = (Ret (Inl err), t) \<and> errors_Is err ErrUnexpectedEOF
      \<and> MD_Len (cs_trailerMD s0) = 0
    \<longrightarrow> cs_trailersOnly (snd (clientStream_RecvMsg P s0)))
   \<and> (cs_trailersOnly s
    \<longrightarrow> clientStream_Header s = ((None, None), s)
        \<and> clientStream_Header (foldl (client_step P) s ops)
            = ((None, None), foldl (client_step P) s ops))"
  using RecvMsg_detects_trailersOnly [where ?s0.0 = s0 and err = err and t = t and P = P]
        Header_trailersOnly [where s = s]
        Header_trailersOnly [where s = "foldl (client_step P) s ops"]
        client_steps_keep_trailersOnly [where s = s and P = P and ops = ops]
  by auto

lemma receive_nothing:
  "fst (ws_Receive (cs_transport (client_stream_on []))) = Ret (Inl ErrUnexpectedEOF)"
  by (simp add: client_stream_on_def new_clientStream_def new_webSocketTransport_def
        conn_delivering_def ws_Receive_def ws_read_header_def conn_NextReader_def
        conn_ReadMessage_def CloseNormalClosure_def CloseAbnormalClosure_def Let_def)

theorem header_after_trailers_only_witness:
  "cs_trailersOnly (snd (clientStream_RecvMsg spec_parser (client_stream_on [])))
   \<and> clientStream_Header (snd (clientStream_RecvMsg spec_parser (client_stream_on [])))
       = ((None, None), snd (clientStream_RecvMsg spec_parser (client_stream_on [])))
   \<and> clientStream_Header
         (foldl (client_step spec_parser) (snd (clientStream_RecvMsg spec_parser (client_stream_on [])))
            [OpSendMsg [7], OpRecvMsg, OpCloseSend])
       = ((None, None),
          foldl (client_step spec_parser) (snd (clientStream_RecvMsg spec_parser (client_stream_on [])))
            [OpSendMsg [7], OpRecvMsg, OpCloseSend])"
proof -
  note th = header_after_trailers_only
              [where ?s0.0 = "client_stream_on []" and err = ErrUnexpectedEOF
                 and t = "snd (ws_Receive (cs_transport (client_stream_on [])))"
                 and P = spec_parser
                 and s = "snd (clientStream_RecvMsg spec_parser (client_stream_on []))"
                 and ops = "[OpSendMsg [7], OpRecvMsg, OpCloseSend]"]
  have e: "errors_Is ErrUnexpectedEOF ErrUnexpectedEOF" by simp
  have l: "MD_Len (cs_trailerMD (client_stream_on [] :: bytes clientStream)) = 0"
    by (simp add: client_stream_on_def new_clientStream_def MD_Len_def)
  from th e l pair_of_fst [OF receive_nothing]
  have c: "cs_trailersOnly (snd (clientStream_RecvMsg spec_parser (client_stream_on [])))"
    by blast
  from th c show ?thesis by blast
qed

section \<open>Sending after the end of sending\<close>

lemma ws_Send_closed: "ws_closed t \<Longrightarrow> ws_Send t b = (Some EOF, t)"
  by (simp add: ws_Send_def)

lemma ws_CloseSend_keeps_closed: "ws_closed (snd (ws_CloseSend t)) = ws_closed t"
  by (simp add: ws_CloseSend_def ws_writeMessage_def split: prod.splits option.splits)

lemma ws_CloseSend_ok:
  assumes "write_err (ws_conn t) = None" and "\<not> close_sent (ws_conn t)"
  shows "ws_CloseSend t =
           (None, t\<lparr>ws_conn := (ws_conn t)\<lparr>outgoing := outgoing (ws_conn t) @ [(BinaryMessage, Raw [0x01])],
                                            close_sent := False\<rparr>\<rparr>)"
  using assms
  by (simp add: ws_CloseSend_def ws_writeMessage_def conn_WriteMessage_def BinaryMessage_def
        CloseMessage_def)

lemma ws_Send_ok:
  assumes "\<not> ws_closed t" and "write_err (ws_conn t) = None" and "\<not> close_sent (ws_conn t)"
  shows "fst (ws_Send t b) = None"
  using assms
  by (simp add: ws_Send_def ws_send_header_def ws_writeMessage_def conn_WriteMessage_def
        BinaryMessage_def CloseMessage_def Let_def split: prod.splits option.splits)

lemma SendMsg_closed_transport:
  assumes "co_codec (cs_callOptions s) = Some cdc" and "Marshal cdc m = Inr p"
      and "ws_closed (cs_transport s)"
  shows "fst (clientStream_SendMsg s m) = Ret (Some (Wrap EOF ''failed to send the request''))"
  using assms
  by (simp add: clientStream_SendMsg_def encodeRequestBody_def Let_def ws_Send_closed
        ws_SetRequestHeader_def)

lemma SendMsg_open_transport:
  assumes "co_codec (cs_callOptions s) = Some cdc" and "Marshal cdc m = Inr p"
      and "\<not> ws_closed (cs_transport s)" and "write_err (ws_conn (cs_transport s)) = None"
      and "\<not> close_sent (ws_conn (cs_transport s))"
  shows "fst (clientStream_SendMsg s m) = Ret None"
proof -
  have "fst (ws_Send (ws_SetRequestHeader (cs_transport s) (add_outgoing [] (cs_ctx s)))
               (header (int (length p)) @ p)) = None"
    using assms(3-5) by (intro ws_Send_ok) (simp_all add: ws_SetRequestHeader_def)
  then obtain t1 where "ws_Send (ws_SetRequestHeader (cs_transport s) (add_outgoing [] (cs_ctx s)))
               (header (int (length p)) @ p) = (None, t1)"
    by (metis prod.collapse)
  then show ?thesis
    using assms(1,2)
    by (simp add: clientStream_SendMsg_def encodeRequestBody_def Let_def)
qed

lemma CloseSend_transport:
  "cs_transport (snd (clientStream_CloseSend s)) = snd (ws_CloseSend (cs_transport s))"
  by (simp add: clientStream_CloseSend_def split: prod.splits option.splits)

lemma CloseSend_effect:
  "cs_callOptions (snd (clientStream_CloseSend s)) = cs_callOptions s
   \<and> ws_closed (cs_transport (snd (clientStream_CloseSend s))) = ws_closed (cs_transport s)"
  by (simp add: CloseSend_transport ws_CloseSend_keeps_closed)
     (simp add: clientStream_CloseSend_def split: prod.splits option.splits)

lemma bidi_CloseSend_transport:
  "cs_transport (bs_clientStream (snd (bidiStream_CloseSend b)))
     = snd (ws_CloseSend (cs_transport (bs_clientStream b)))"
  by (simp add: bidiStream_CloseSend_def split: prod.splits option.splits)

lemma bidi_CloseSend_effect:
  "cs_callOptions (bs_clientStream (snd (bidiStream_CloseSend b))) = cs_callOptions (bs_clientStream b)
   \<and> ws_closed (cs_transport (bs_clientStream (snd (bidiStream_CloseSend b))))
       = ws_closed (cs_transport (bs_clientStream b))"
  by (simp add: bidi_CloseSend_transport ws_CloseSend_keeps_closed)
     (simp add: bidiStream_CloseSend_def split: prod.splits option.splits)

lemma bidi_SendMsg_fst:
  "fst (bidiStream_SendMsg b m) = fst (clientStream_SendMsg (bs_clientStream b) m)"
  by (simp add: bidiStream_SendMsg_def split: prod.splits)

text \<open>
  C2, as the code has it. \<open>CloseSend\<close> writes the end-of-send byte and closes nothing:
  a \<open>SendMsg\<close> call after it (with a codec that marshals the message) fails with
  \<open>io.EOF\<close>, wrapped, when the transport had been closed with \<open>Close\<close>, and on an open
  transport whose socket accepts writes both \<open>CloseSend\<close> and the \<open>SendMsg\<close> after it
  return nil. This holds for the client stream and for the bidi stream.
\<close>

theorem send_after_CloseSend:
  assumes "co_codec (cs_callOptions s) = Some cdc" and "Marshal cdc m = Inr p"
      and "bs_clientStream b = s"
  shows "(ws_closed (cs_transport s) \<longrightarrow>
            fst (clientStream_SendMsg (snd (clientStream_CloseSend s)) m)
              = Ret (Some (Wrap EOF ''failed to send the request''))
          \<and> fst (bidiStream_SendMsg (snd (bidiStream_CloseSend b)) m)
              = Ret (Some (Wrap EOF ''failed to send the request'')))
       \<and> (\<not> ws_closed (cs_transport s) \<and> write_err (ws_conn (cs_transport s)) = None
            \<and> \<not> close_sent (ws_conn (cs_transport s)) \<longrightarrow>
            fst (clientStream_CloseSend s) = None
          \<and> fst (clientStream_SendMsg (snd (clientStream_CloseSend s)) m) = Ret None
          \<and> fst (bidiStream_CloseSend b) = None
          \<and> fst (bidiStream_SendMsg (snd (bidiStream_CloseSend b)) m) = Ret None)"
proof (intro conjI impI)
  assume c: "ws_closed (cs_transport s)"
  show "fst (clientStream_SendMsg (snd (clientStream_CloseSend s)) m)
          = Ret (Some (Wrap EOF ''failed to send the request''))"
    using assms(1,2) c by (intro SendMsg_closed_transport [where cdc = cdc and p = p])
      (simp_all add: CloseSend_effect)
  show "fst (bidiStream_SendMsg (snd (bidiStream_CloseSend b)) m)
          = Ret (Some (Wrap EOF ''failed to send the request''))"
    unfolding bidi_SendMsg_fst
    using assms c by (intro SendMsg_closed_transport [where cdc = cdc and p = p])
      (simp_all add: bidi_CloseSend_effect)
next
  assume o: "\<not> ws_closed (cs_transport s) \<and> write_err (ws_conn (cs_transport s)) = None
            \<and> \<not> close_sent (ws_conn (cs_transport s))"
  then have w: "ws_CloseSend (cs_transport s) =
           (None, (cs_transport s)\<lparr>ws_conn := (ws_conn (cs_transport s))
              \<lparr>outgoing := outgoing (ws_conn (cs_transport s)) @ [(BinaryMessage, Raw [0x01])],
               close_sent := False\<rparr>\<rparr>)"
    by (intro ws_CloseSend_ok) simp_all
  show "fst (clientStream_CloseSend s) = None"
    by (simp add: clientStream_CloseSend_def w)
  show "fst (bidiStream_CloseSend b) = None"
    using assms(3) by (simp add: bidiStream_CloseSend_def w)
  show "fst (clientStream_SendMsg (snd (clientStream_CloseSend s)) m) = Ret None"
    using assms(1,2) o by (intro SendMsg_open_transport [where cdc = cdc and p = p])
      (simp_all add: CloseSend_effect CloseSend_transport w)
  show "fst (bidiStream_SendMsg (snd (bidiStream_CloseSend b)) m) = Ret None"
    unfolding bidi_SendMsg_fst
    using assms o by (intro SendMsg_open_transport [where cdc = cdc and p = p])
      (simp_all add: bidi_CloseSend_effect bidi_CloseSend_transport w)
qed


lemma header_1: "header 1 = [0, 0, 0, 0, 1]"
  by code_simp

lemma request_header_block:
  "Header_Set (Header_Set [] ''content-type'' ''application/grpc-web+proto'') ''x-grpc-web'' ''1''
     = [(''Content-Type'', [''application/grpc-web+proto'']), (''X-Grpc-Web'', [''1''])]"
  by code_simp

lemma closed_transport: "ws_closed (cs_transport client_stream_closed)"
  by (simp add: client_stream_closed_def client_stream_on_def new_clientStream_def
        new_webSocketTransport_def conn_delivering_def ws_Close_def ws_writeMessage_def
        conn_WriteMessage_def)

theorem send_after_CloseSend_witness:
  "fst (clientStream_CloseSend (client_stream_on [])) = None
   \<and> fst (clientStream_SendMsg (snd (clientStream_CloseSend (client_stream_on []))) [7]) = Ret None
   \<and> fst (bidiStream_CloseSend (bidi_stream_on [])) = None
   \<and> fst (bidiStream_SendMsg (snd (bidiStream_CloseSend (bidi_stream_on []))) [7]) = Ret None
   \<and> fst (clientStream_SendMsg (snd (clientStream_CloseSend client_stream_closed)) [7])
       = Ret (Some (Wrap EOF ''failed to send the request''))"
proof -
  have c: "co_codec (cs_callOptions (client_stream_on [])) = Some raw_codec"
    by (simp add: client_stream_on_def new_clientStream_def)
  have c': "co_codec (cs_callOptions client_stream_closed) = Some raw_codec"
    by (simp add: client_stream_closed_def client_stream_on_def new_clientStream_def)
  have m: "Marshal raw_codec [7] = Inr [7]"
    by (simp add: raw_codec_def)
  have b: "bs_clientStream (bidi_stream_on []) = client_stream_on []"
    by (simp add: bidi_stream_on_def new_bidiStream_def)
  have b': "bs_clientStream (new_bidiStream client_stream_closed) = client_stream_closed"
    by (simp add: new_bidiStream_def)
  have o: "\<not> ws_closed (cs_transport (client_stream_on []))
           \<and> write_err (ws_conn (cs_transport (client_stream_on []))) = None
           \<and> \<not> close_sent (ws_conn (cs_transport (client_stream_on [])))"
    by (simp add: client_stream_on_def new_clientStream_def new_webSocketTransport_def
          conn_delivering_def)
  from send_after_CloseSend [OF c m b] o
  have 1: "fst (clientStream_CloseSend (client_stream_on [])) = None
          \<and> fst (clientStream_SendMsg (snd (clientStream_CloseSend (client_stream_on []))) [7]) = Ret None
          \<and> fst (bidiStream_CloseSend (bidi_stream_on [])) = None
          \<and> fst (bidiStream_SendMsg (snd (bidiStream_CloseSend (bidi_stream_on []))) [7]) = Ret None"
    by blast
  from send_after_CloseSend [OF c' m b'] closed_transport
  have 2: "fst (clientStream_SendMsg (snd (clientStream_CloseSend client_stream_closed)) [7])
       = Ret (Some (Wrap EOF ''failed to send the request''))"
    by blast
  from 1 2 show ?thesis by simp
qed

text \<open>
  C2 as stated fails on a fresh client stream whose socket accepts writes: after
  \<open>CloseSend\<close> has returned nil, \<open>SendMsg\<close> returns nil too and the message goes out
  after the end-of-send byte.
\<close>

theorem send_after_CloseSend_counterexample:
  "fst (clientStream_CloseSend (client_stream_on [])) = None
   \<and> cs_closed (snd (clientStream_CloseSend (client_stream_on [])))
   \<and> fst (clientStream_SendMsg (snd (clientStream_CloseSend (client_stream_on []))) [7]) = Ret None
   \<and> outgoing (ws_conn (cs_transport
        (snd (clientStream_SendMsg (snd (clientStream_CloseSend (client_stream_on []))) [7]))))
       = [(BinaryMessage, Raw [0x01]),
          (BinaryMessage, HeaderText [(''Content-Type'', [''application/grpc-web+proto'']),
                                      (''X-Grpc-Web'', [''1''])]),
          (BinaryMessage, Raw [0x00, 0, 0, 0, 0, 1, 7])]"
  by (simp add: client_stream_on_def new_clientStream_def new_webSocketTransport_def
        conn_delivering_def clientStream_CloseSend_def ws_CloseSend_def ws_writeMessage_def
        conn_WriteMessage_def clientStream_SendMsg_def encodeRequestBody_def raw_codec_def
        header_1 ws_SetRequestHeader_def add_outgoing_def ws_Send_def ws_send_header_def
        request_header_block BinaryMessage_def CloseMessage_def Let_def)

section \<open>Reading the trailer\<close>

lemma server_RecvMsg_message_keeps_closed:
  "fst (serverStream_RecvMsg P ss) = Ret (None, Some m)
     \<Longrightarrow> ss_closed (snd (serverStream_RecvMsg P ss)) = ss_closed ss"
  by (auto simp: serverStream_RecvMsg_def server_recv_message_def server_recv_trailer_def
        recv_return_def Status_Err_def Let_def
        split: option.splits if_splits prod.splits sum.splits)

lemma server_SendMsg_keeps_closed:
  "ss_closed (snd (serverStream_SendMsg w ss m)) = ss_closed ss"
  by (simp add: serverStream_SendMsg_def Let_def split: option.splits sum.splits prod.splits)

lemma recv_trailers_only_no_message:
  "recv_trailers_only c \<noteq> (Ret (None, Some m), c')"
  by (simp add: recv_trailers_only_def Let_def split: prod.splits option.splits result.splits)

lemma bidi_recv_frame_message_keeps_closed:
  "bidi_recv_frame P c h rb = (Ret (None, Some m), c') \<Longrightarrow> cs_closed c' = cs_closed c"
  by (auto simp: bidi_recv_frame_def Let_def
        split: option.splits if_splits prod.splits sum.splits)

lemma bidi_RecvMsg_message_keeps_closed:
  "fst (bidiStream_RecvMsg P bs) = Ret (None, Some m)
     \<Longrightarrow> cs_closed (bs_clientStream (snd (bidiStream_RecvMsg P bs))) = cs_closed (bs_clientStream bs)"
  by (auto simp: bidiStream_RecvMsg_def Let_def recv_trailers_only_no_message
        dest: bidi_recv_frame_message_keeps_closed
        split: if_splits prod.splits sum.splits result.splits)

lemma bidi_SendMsg_keeps_closed:
  "cs_closed (bs_clientStream (snd (bidiStream_SendMsg bs m))) = cs_closed (bs_clientStream bs)"
  by (simp add: bidiStream_SendMsg_def clientStream_SendMsg_def Let_def
        split: option.splits sum.splits prod.splits)

lemma bidi_CloseSend_keeps_closed:
  "cs_closed (bs_clientStream (snd (bidiStream_CloseSend bs))) = cs_closed (bs_clientStream bs)"
  by (simp add: bidiStream_CloseSend_def split: option.splits prod.splits)

lemma client_Trailer_after_CloseSend:
  "fst (clientStream_CloseSend c) = None
     \<Longrightarrow> clientStream_Trailer (snd (clientStream_CloseSend c)) = Ret (cs_trailerMD c)"
  by (auto simp: clientStream_CloseSend_def clientStream_Trailer_def
        split: option.splits prod.splits)

text \<open>
  C5, as the code has it. \<open>Trailer\<close> panics whenever the stream's closed flag is unset,
  on all three kinds of stream. On a server stream and on a bidi stream the flag stays as
  it is through \<open>SendMsg\<close>, through the bidi \<open>CloseSend\<close> and through every \<open>RecvMsg\<close>
  call that delivers a message, so there \<open>Trailer\<close> panics before the end of the stream.
  On a client stream the flag is set by a successful \<open>CloseSend\<close>: from then on
  \<open>Trailer\<close> returns the stored trailer without a panic.
\<close>

theorem trailer_needs_closed_flag:
  "(\<not> ss_closed ss \<longrightarrow>
      serverStream_Trailer ss
        = Panic ''Trailer must be called after stream.CloseAndReceive has been called'')
   \<and> (\<not> cs_closed c \<longrightarrow>
      clientStream_Trailer c
        = Panic ''Trailer must be called after stream.CloseAndReceive has been called''
      \<and> bidiStream_Trailer \<lparr>bs_clientStream = c, bs_sentCloseSend = f\<rparr>
        = Panic ''Trailer must be called after stream.CloseAndReceive has been called'')
   \<and> ss_closed (snd (serverStream_SendMsg w ss m)) = ss_closed ss
   \<and> (fst (serverStream_RecvMsg P ss) = Ret (None, Some m) \<longrightarrow>
      ss_closed (snd (serverStream_RecvMsg P ss)) = ss_closed ss)
   \<and> cs_closed (bs_clientStream (snd (bidiStream_SendMsg bs m))) = cs_closed (bs_clientStream bs)
   \<and> cs_closed (bs_clientStream (snd (bidiStream_CloseSend bs))) = cs_closed (bs_clientStream bs)
   \<and> (fst (bidiStream_RecvMsg P bs) = Ret (None, Some m) \<longrightarrow>
      cs_closed (bs_clientStream (snd (bidiStream_RecvMsg P bs))) = cs_closed (bs_clientStream bs))
   \<and> (fst (clientStream_CloseSend c) = None \<longrightarrow>
      clientStream_Trailer (snd (clientStream_CloseSend c)) = Ret (cs_trailerMD c))"
  using server_RecvMsg_message_keeps_closed [of P ss m]
        bidi_RecvMsg_message_keeps_closed [of P bs m]
        client_Trailer_after_CloseSend [of c]
  by (simp add: serverStream_Trailer_def clientStream_Trailer_def bidiStream_Trailer_def
        server_SendMsg_keeps_closed bidi_SendMsg_keeps_closed bidi_CloseSend_keeps_closed)

lemma server_delivers_7:
  "fst (serverStream_RecvMsg spec_parser (server_stream_on [1, 0, 0, 0, 1, 7])) = Ret (None, Some [7])"
  by (simp add: serverStream_RecvMsg_def server_stream_on_def server_recv_message_def
        spec_parser_def spec_ParseLengthPrefixedMessage_def raw_codec_def Uint32_1
        recv_return_def Let_def)

lemma bidi_delivers_7:
  "fst (bidiStream_RecvMsg spec_parser (bidi_stream_on data_script)) = Ret (None, Some [7])"
  by (simp add: data_script_def bidi_stream_on_def new_bidiStream_def client_stream_on_def
        new_clientStream_def new_webSocketTransport_def conn_delivering_def
        bidiStream_RecvMsg_def bidiStream_isTrailerOnly_def ws_Receive_def
        ws_read_header_def conn_NextReader_def conn_ReadMessage_def reader_ReadAll_def
        msg_bytes_def string_of_bytes_def bidi_recv_frame_def spec_parser_def
        spec_ParseResponseHeader_def spec_IsMessageHeader_def
        spec_ParseLengthPrefixedMessage_def raw_codec_def Uint32_1 Let_def)

lemma CloseSend_succeeds:
  "fst (clientStream_CloseSend (client_stream_on ms)) = None"
  by (simp add: client_stream_on_def new_clientStream_def new_webSocketTransport_def
        conn_delivering_def clientStream_CloseSend_def ws_CloseSend_def ws_writeMessage_def
        conn_WriteMessage_def)

theorem trailer_needs_closed_flag_witness:
  "serverStream_Trailer (server_stream_on [1, 0, 0, 0, 1, 7])
     = Panic ''Trailer must be called after stream.CloseAndReceive has been called''
   \<and> \<not> ss_closed (snd (serverStream_RecvMsg spec_parser (server_stream_on [1, 0, 0, 0, 1, 7])))
   \<and> clientStream_Trailer (client_stream_on data_script)
     = Panic ''Trailer must be called after stream.CloseAndReceive has been called''
   \<and> bidiStream_Trailer (bidi_stream_on data_script)
     = Panic ''Trailer must be called after stream.CloseAndReceive has been called''
   \<and> \<not> cs_closed (bs_clientStream (snd (bidiStream_RecvMsg spec_parser (bidi_stream_on data_script))))
   \<and> clientStream_Trailer (snd (clientStream_CloseSend (client_stream_on data_script))) = Ret None"
proof -
  note th = trailer_needs_closed_flag
              [where ss = "server_stream_on [1, 0, 0, 0, 1, 7]" and c = "client_stream_on data_script"
                 and f = False and bs = "bidi_stream_on data_script" and P = spec_parser
                 and m = "[7]"
                 and w = "world_answering \<lparr>StatusCode = 200, resp_Header = [], resp_Body = []\<rparr>"]
  have s0: "\<not> ss_closed (server_stream_on [1, 0, 0, 0, 1, 7])"
    by (simp add: server_stream_on_def)
  have c0: "\<not> cs_closed (client_stream_on data_script)"
    by (simp add: client_stream_on_def new_clientStream_def)
  have b0: "\<lparr>bs_clientStream = client_stream_on data_script, bs_sentCloseSend = False\<rparr>
              = bidi_stream_on data_script"
    by (simp add: bidi_stream_on_def new_bidiStream_def)
  have t0: "cs_trailerMD (client_stream_on data_script) = None"
    by (simp add: client_stream_on_def new_clientStream_def)
  have b1: "\<not> cs_closed (bs_clientStream (bidi_stream_on data_script))"
    by (simp add: bidi_stream_on_def new_bidiStream_def client_stream_on_def new_clientStream_def)
  from th s0 c0 b1 server_delivers_7 bidi_delivers_7 CloseSend_succeeds [of data_script]
  show ?thesis
    by (simp add: b0 t0)
qed

text \<open>
  C5 as stated fails on a client stream: right after a successful \<open>CloseSend\<close>, with
  nothing received yet (no trailer stored, no trailers-only response detected, the
  trailer frame still unread on the socket), \<open>Trailer\<close> returns nil metadata and does
  not panic.
\<close>

theorem trailer_needs_closed_flag_counterexample:
  "fst (clientStream_CloseSend (client_stream_on trailer_script)) = None
   \<and> clientStream_Trailer (snd (clientStream_CloseSend (client_stream_on trailer_script))) = Ret None
   \<and> \<not> cs_trailersOnly (snd (clientStream_CloseSend (client_stream_on trailer_script)))
   \<and> cs_trailerMD (snd (clientStream_CloseSend (client_stream_on trailer_script))) = None
   \<and> incoming (ws_conn (cs_transport (snd (clientStream_CloseSend (client_stream_on trailer_script)))))
       = trailer_script"
  by (simp add: client_stream_on_def new_clientStream_def new_webSocketTransport_def
        conn_delivering_def clientStream_CloseSend_def ws_CloseSend_def ws_writeMessage_def
        conn_WriteMessage_def clientStream_Trailer_def)

end
